theory Spec2Isabelle
  imports Complex_Main "HOL-Library.Word"
begin

section \<open>Data model of the chess core (code.cpp)\<close>

text \<open>
  Piece codes are the values of the enum \<open>ChessPieces\<close>, stored in a \<open>char\<close>:
  black pieces are negative, white pieces positive, 0 is the empty square.
  All values that occur stay far inside the range of a signed char, so they are
  modelled as \<open>int\<close>.
\<close>

definition B_KING :: int where "B_KING = -6"
definition B_QUEEN :: int where "B_QUEEN = -5"
definition B_BISHOP :: int where "B_BISHOP = -4"
definition B_KNIGHT :: int where "B_KNIGHT = -3"
definition B_ROOK :: int where "B_ROOK = -2"
definition B_PAWN :: int where "B_PAWN = -1"
definition EMPTY :: int where "EMPTY = 0"
definition W_KING :: int where "W_KING = 1"
definition W_QUEEN :: int where "W_QUEEN = 2"
definition W_BISHOP :: int where "W_BISHOP = 3"
definition W_KNIGHT :: int where "W_KNIGHT = 4"
definition W_ROOK :: int where "W_ROOK = 5"
definition W_PAWN :: int where "W_PAWN = 6"

definition BOARD_SIZE :: int where "BOARD_SIZE = 8"

datatype Moves = NORMAL | CASTLING | PROMOTION | EN_PASSANT

datatype Endgame = CHECKMATE | FIFTY_MOVES | THREEFOLD_REP | QUIT

text \<open>
  \<open>char board[8][8]\<close> is one block of 64 bytes; \<open>board[y][x]\<close> is the byte at offset
  \<open>8 * y + x\<close> of that block.  The source reads \<open>board[j][i]\<close> in several places
  before it tests the indices, so the board is modelled as the memory around the
  array: a function from byte offsets to char values, of which the offsets
  \<open>0 .. 63\<close> are the squares.  A read with an index outside \<open>0 .. 7\<close> then yields
  whatever the memory holds at that offset.

  A \<open>std::string\<close> is a list of char values; a log entry is the pair
  \<open>(kind, string)\<close> of \<open>all_game_moves\<close>, the oldest entry first as in the vector.
\<close>

type_synonym cstring = "int list"

record Chess =
  board :: "int \<Rightarrow> int"
  white_castling :: bool
  black_castling :: bool
  white_score :: "16 word"
  black_score :: "16 word"
  all_game_moves :: "(Moves \<times> cstring) list"
  whites_turn :: bool
  moves_after_last_pawn_move_or_capture :: "16 word"
  white_bot_random :: bool
  black_bot_random :: bool

definition b2i :: "bool \<Rightarrow> int" where
  "b2i b = (if b then 1 else 0)"

definition cell :: "int \<Rightarrow> int \<Rightarrow> int" where
  "cell x y = 8 * y + x"

definition sq :: "Chess \<Rightarrow> int \<Rightarrow> int \<Rightarrow> int" where
  "sq c x y = board c (cell x y)"

definition put :: "int \<Rightarrow> int \<Rightarrow> int \<Rightarrow> Chess \<Rightarrow> Chess" where
  "put x y v c = c\<lparr>board := (board c)(cell x y := v)\<rparr>"

definition STARTING_BOARD :: "int list" where
  "STARTING_BOARD =
    [-2, -3, -4, -5, -6, -4, -3, -2,
     -1, -1, -1, -1, -1, -1, -1, -1,
      0,  0,  0,  0,  0,  0,  0,  0,
      0,  0,  0,  0,  0,  0,  0,  0,
      0,  0,  0,  0,  0,  0,  0,  0,
      0,  0,  0,  0,  0,  0,  0,  0,
      6,  6,  6,  6,  6,  6,  6,  6,
      5,  4,  3,  2,  1,  3,  4,  5]"

definition WithinBounds :: "int \<Rightarrow> bool" where
  "WithinBounds coord = (coord \<ge> 0 \<and> coord < BOARD_SIZE)"

definition ToString :: "int \<Rightarrow> int \<Rightarrow> int \<Rightarrow> int \<Rightarrow> cstring" where
  "ToString x1 y1 x2 y2 = [x1 + 97, 56 - y1, x2 + 97, 56 - y2]"

text \<open>
  \<open>ChangeToRealCoordinates\<close> rewrites the first four characters of a string in place;
  the remaining characters are kept.
\<close>

fun ChangeToRealCoordinates :: "cstring \<Rightarrow> cstring" where
  "ChangeToRealCoordinates (x1 # y1 # x2 # y2 # rest) = (x1 - 97) # (56 - y1) # (x2 - 97) # (56 - y2) # rest"
| "ChangeToRealCoordinates s = s"

fun ChangeToString :: "cstring \<Rightarrow> cstring" where
  "ChangeToString (x1 # y1 # x2 # y2 # rest) = (x1 + 97) # (56 - y1) # (x2 + 97) # (56 - y2) # rest"
| "ChangeToString s = s"

definition EvaluatePiece :: "int \<Rightarrow> int" where
  "EvaluatePiece piece =
    (if piece = W_PAWN \<or> piece = B_PAWN then 10
     else if piece = W_ROOK \<or> piece = B_ROOK then 50
     else if piece = W_KNIGHT \<or> piece = B_KNIGHT \<or> piece = W_BISHOP \<or> piece = B_BISHOP then 30
     else if piece = W_QUEEN \<or> piece = B_QUEEN then 90
     else if piece = W_KING \<or> piece = B_KING then 900
     else 0)"

definition GetPiece :: "Chess \<Rightarrow> int \<Rightarrow> int \<Rightarrow> int" where
  "GetPiece c x y = sq c x y"

definition GetTurn :: "Chess \<Rightarrow> bool" where
  "GetTurn c = whites_turn c"

definition GetCastling :: "Chess \<Rightarrow> bool" where
  \<comment> \<open>\<open>GetCurrentPlayerConst().GetCastling()\<close>\<close>
  "GetCastling c = (if whites_turn c then white_castling c else black_castling c)"

definition GetOtherCastling :: "Chess \<Rightarrow> bool" where
  \<comment> \<open>\<open>GetOtherPlayerConst().GetCastling()\<close>\<close>
  "GetOtherCastling c = (if whites_turn c then black_castling c else white_castling c)"

definition SetCastling :: "bool \<Rightarrow> Chess \<Rightarrow> Chess" where
  \<comment> \<open>\<open>GetCurrentPlayer().SetCastling(v)\<close>\<close>
  "SetCastling v c = (if whites_turn c then c\<lparr>white_castling := v\<rparr> else c\<lparr>black_castling := v\<rparr>)"

definition IncreaseScore :: "int \<Rightarrow> Chess \<Rightarrow> Chess" where
  \<comment> \<open>\<open>GetCurrentPlayer().IncreaseScore(inc)\<close>, an unsigned short that wraps\<close>
  "IncreaseScore inc c =
    (if whites_turn c then c\<lparr>white_score := white_score c + word_of_int inc\<rparr>
     else c\<lparr>black_score := black_score c + word_of_int inc\<rparr>)"

definition ChangeTurn :: "Chess \<Rightarrow> Chess" where
  "ChangeTurn c = c\<lparr>whites_turn := \<not> whites_turn c\<rparr>"

definition CheckCoordinates :: "int \<Rightarrow> int \<Rightarrow> int option" where
  \<comment> \<open>\<open>Some coord\<close>: the offending coordinate is printed and \<open>exit(1)\<close> is called;
      \<open>None\<close>: the function returns normally.\<close>
  "CheckCoordinates x y =
    (if \<not> WithinBounds x then Some x
     else if \<not> WithinBounds y then Some y
     else None)"


section \<open>The move log\<close>

text \<open>
  \<open>s[k]\<close> on a \<open>std::string\<close>: the character at position \<open>k\<close>; at \<open>k = size()\<close> the
  standard gives the terminator 0.  No run of the functions below reads further
  out in an entry written by \<open>MovePiece\<close>; the model returns 0 there too.
\<close>

definition chr_at :: "cstring \<Rightarrow> nat \<Rightarrow> int" where
  "chr_at s k = (if k < length s then s ! k else 0)"

definition back_kind :: "Chess \<Rightarrow> Moves" where
  \<comment> \<open>\<open>all_game_moves.back().first\<close>\<close>
  "back_kind c = fst (last (all_game_moves c))"

definition back_str :: "Chess \<Rightarrow> cstring" where
  \<comment> \<open>\<open>all_game_moves.back().second\<close>\<close>
  "back_str c = snd (last (all_game_moves c))"

definition set_back_kind :: "Moves \<Rightarrow> Chess \<Rightarrow> Chess" where
  \<comment> \<open>\<open>all_game_moves.back().first = k\<close>\<close>
  "set_back_kind k c =
    c\<lparr>all_game_moves := butlast (all_game_moves c) @ [(k, back_str c)]\<rparr>"

definition back_push :: "int \<Rightarrow> Chess \<Rightarrow> Chess" where
  \<comment> \<open>\<open>all_game_moves.back().second.push_back(ch)\<close>\<close>
  "back_push ch c =
    c\<lparr>all_game_moves := butlast (all_game_moves c) @ [(back_kind c, back_str c @ [ch])]\<rparr>"

definition AppendToAllGameMoves :: "int \<Rightarrow> int \<Rightarrow> int \<Rightarrow> int \<Rightarrow> Chess \<Rightarrow> Chess" where
  "AppendToAllGameMoves x1 y1 x2 y2 c =
    (if GetCastling c \<and> sq c x1 y1 = B_KING + 7 * b2i (whites_turn c) \<and> (x2 = 2 \<or> x2 = 6)
     then c\<lparr>all_game_moves := all_game_moves c @ [(CASTLING, [x2])]\<rparr>
     else c\<lparr>all_game_moves := all_game_moves c @
            [(NORMAL, ToString x1 y1 x2 y2 @ [sq c x1 y1, sq c x2 y2])]\<rparr>)"

section \<open>Move executor\<close>

text \<open>
  What \<open>MovePiece\<close> takes from outside the core: the key typed in
  \<open>ManuallyPromotePawn\<close> (the loop there returns only on one of r, k, b, q) and the
  number drawn by \<open>GetRandomNumber(2, 5)\<close> for a random bot.  \<open>main\<close> creates every
  game with both random flags false, and the search passes
  \<open>manual_promotion = false\<close>; then neither input is read.
\<close>

datatype Key = Key_r | Key_k | Key_b | Key_q

record Input =
  key :: Key
  rnd :: int

definition ManuallyPromotePawn :: "Key \<Rightarrow> int \<Rightarrow> int \<Rightarrow> Chess \<Rightarrow> Chess" where
  "ManuallyPromotePawn k x y c =
    (case k of
       Key_r \<Rightarrow> put x y (if whites_turn c then W_ROOK else B_ROOK) c
     | Key_k \<Rightarrow> put x y (if whites_turn c then W_KNIGHT else B_KNIGHT) c
     | Key_b \<Rightarrow> put x y (if whites_turn c then W_BISHOP else B_BISHOP) c
     | Key_q \<Rightarrow> put x y (if whites_turn c then W_QUEEN else B_QUEEN) c)"

definition move_pawn :: "Input \<Rightarrow> int \<Rightarrow> int \<Rightarrow> int \<Rightarrow> int \<Rightarrow> bool \<Rightarrow> bool \<Rightarrow> Chess \<Rightarrow> Chess" where
  \<comment> \<open>the branch \<open>case W_PAWN: case B_PAWN:\<close> of \<open>MovePiece\<close>\<close>
  "move_pawn inp x1 y1 x2 y2 manual_promotion update_board c =
    (if y2 = (BOARD_SIZE - 1) * b2i (\<not> whites_turn c) then
       (let c1 = (if manual_promotion then ManuallyPromotePawn (key inp) x1 y1 c
                  else if (if whites_turn c then white_bot_random c else black_bot_random c)
                  then put x1 y1 ((if whites_turn c then 1 else -1) * rnd inp) c
                  else put x1 y1 (if whites_turn c then W_QUEEN else B_QUEEN) c);
            c2 = set_back_kind PROMOTION c1
        in back_push (sq c2 x1 y1) c2)
     else if x1 \<noteq> x2 \<and> sq c x2 y2 = EMPTY then
       (let c1 = put x2 y1 EMPTY c;
            c2 = (if update_board then IncreaseScore (EvaluatePiece W_PAWN) c1 else c1)
        in set_back_kind EN_PASSANT c2)
     else c)"

definition move_king :: "int \<Rightarrow> Chess \<Rightarrow> Chess" where
  \<comment> \<open>the branch \<open>case W_KING: case B_KING:\<close>, which falls through into the rook branch\<close>
  "move_king x2 c =
    (let c1 = (if GetCastling c then
                 (let line = (BOARD_SIZE - 1) * b2i (whites_turn c) in
                  if x2 = 2 then put 0 line EMPTY (put 3 line (sq c 0 line) c)
                  else if x2 = 6 then put 7 line EMPTY (put 5 line (sq c 7 line) c)
                  else c)
               else c)
     in SetCastling False c1)"

definition switch_piece :: "Input \<Rightarrow> int \<Rightarrow> int \<Rightarrow> int \<Rightarrow> int \<Rightarrow> bool \<Rightarrow> bool \<Rightarrow> Chess \<Rightarrow> Chess" where
  \<comment> \<open>\<open>switch(board[y1][x1])\<close> of \<open>MovePiece\<close>\<close>
  "switch_piece inp x1 y1 x2 y2 manual_promotion update_board c =
    (let p = sq c x1 y1 in
     if p = W_PAWN \<or> p = B_PAWN then move_pawn inp x1 y1 x2 y2 manual_promotion update_board c
     else if p = W_KING \<or> p = B_KING then move_king x2 c
     else if p = W_ROOK \<or> p = B_ROOK then SetCastling False c
     else c)"

definition push_castling :: "Chess \<Rightarrow> Chess" where
  \<comment> \<open>\<open>if(back().first != CASTLING) back().second.push_back(GetCastling())\<close>\<close>
  "push_castling c = (if back_kind c \<noteq> CASTLING then back_push (b2i (GetCastling c)) c else c)"

definition shift_piece :: "int \<Rightarrow> int \<Rightarrow> int \<Rightarrow> int \<Rightarrow> Chess \<Rightarrow> Chess" where
  \<comment> \<open>\<open>board[y2][x2] = board[y1][x1], board[y1][x1] = EMPTY\<close>\<close>
  "shift_piece x1 y1 x2 y2 c = put x1 y1 EMPTY (put x2 y2 (sq c x1 y1) c)"

definition score_capture :: "bool \<Rightarrow> Chess \<Rightarrow> Chess" where
  \<comment> \<open>the block \<open>if(update_board)\<close> at the end of \<open>MovePiece\<close>, without the display\<close>
  "score_capture update_board c =
    (if update_board \<and> back_kind c \<noteq> CASTLING \<and> chr_at (back_str c) 5 \<noteq> EMPTY
     then (IncreaseScore (EvaluatePiece (chr_at (back_str c) 5)) c)
            \<lparr>moves_after_last_pawn_move_or_capture := 0\<rparr>
     else c)"

definition MovePiece :: "Input \<Rightarrow> Chess \<Rightarrow> int \<Rightarrow> int \<Rightarrow> int \<Rightarrow> int \<Rightarrow> bool \<Rightarrow> bool \<Rightarrow> Chess" where
  "MovePiece inp c x1 y1 x2 y2 manual_promotion update_board =
    ChangeTurn
     (score_capture update_board
       (shift_piece x1 y1 x2 y2
         (push_castling
           (switch_piece inp x1 y1 x2 y2 manual_promotion update_board
             (AppendToAllGameMoves x1 y1 x2 y2 c)))))"

text \<open>
  \<open>MovePieceBack\<close> reads \<open>all_game_moves.back()\<close> and, for a rook or king,
  \<open>prev(all_game_moves.cend(), 3)\<close>.  On a vector that is too short these reads are
  undefined behaviour; the model returns \<open>None\<close> there.
\<close>

definition restore_castling :: "Chess \<Rightarrow> Chess option" where
  \<comment> \<open>the two identical blocks that inspect \<open>prev(all_game_moves.cend(), 3)\<close>\<close>
  "restore_castling c =
    (let n = length (all_game_moves c) in
     if n < 3 then None
     else (let e = all_game_moves c ! (n - 3) in
           if fst e \<noteq> CASTLING \<and> chr_at (snd e) (6 + (if fst e = PROMOTION then 1 else 0)) \<noteq> 0
           then Some (SetCastling True c)
           else Some c))"

definition unmove_king :: "int \<Rightarrow> Chess \<Rightarrow> Chess option" where
  "unmove_king x2 c =
    (if back_kind c = CASTLING then
       (let c1 = SetCastling True c;
            line = (BOARD_SIZE - 1) * b2i (whites_turn c1) in
        if x2 = 2 then Some (put 3 line EMPTY (put 0 line (sq c1 3 line) c1))
        else if x2 = 6 then Some (put 7 line EMPTY (put 5 line (sq c1 7 line) c1))
        else Some c1)
     else restore_castling c)"

definition unshift_piece :: "int \<Rightarrow> int \<Rightarrow> int \<Rightarrow> int \<Rightarrow> Chess \<Rightarrow> Chess" where
  \<comment> \<open>\<open>board[y1][x1] = board[y2][x2], board[y2][x2] = (castling ? EMPTY : back().second[5])\<close>\<close>
  "unshift_piece x1 y1 x2 y2 c =
    put x2 y2 (if back_kind c = CASTLING then EMPTY else chr_at (back_str c) 5)
      (put x1 y1 (sq c x2 y2) c)"

definition unswitch_piece :: "int \<Rightarrow> int \<Rightarrow> int \<Rightarrow> int \<Rightarrow> Chess \<Rightarrow> Chess option" where
  \<comment> \<open>\<open>switch(board[y1][x1])\<close> of \<open>MovePieceBack\<close>\<close>
  "unswitch_piece x1 y1 x2 y2 c =
    (let p = sq c x1 y1 in
     if p = W_PAWN \<or> p = B_PAWN then
       (if x1 \<noteq> x2 \<and> sq c x2 y2 = EMPTY
        then Some (put x2 y1 (if whites_turn c then B_PAWN else W_PAWN) c)
        else Some c)
     else if p = W_ROOK \<or> p = B_ROOK then restore_castling c
     else if p = W_QUEEN \<or> p = B_QUEEN then
       (if back_kind c = PROMOTION
        then Some (put x1 y1 (if whites_turn c then W_PAWN else B_PAWN) c)
        else Some c)
     else if p = W_KING \<or> p = B_KING then unmove_king x2 c
     else Some c)"

definition pop_back :: "Chess \<Rightarrow> Chess" where
  "pop_back c = c\<lparr>all_game_moves := butlast (all_game_moves c)\<rparr>"

definition MovePieceBack :: "Chess \<Rightarrow> int \<Rightarrow> int \<Rightarrow> int \<Rightarrow> int \<Rightarrow> Chess option" where
  "MovePieceBack c x1 y1 x2 y2 =
    (if all_game_moves c = [] then None
     else map_option pop_back (unswitch_piece x1 y1 x2 y2 (unshift_piece x1 y1 x2 y2 (ChangeTurn c))))"

section \<open>Check detector\<close>

text \<open>
  The squares visited by the ray loops, in the order of the loop.  For instance
  \<open>for(i = x+1; i < 8; ++i)\<close> visits \<open>(i, y)\<close> for \<open>i\<close> in \<open>[x+1 .. 7]\<close>, and
  \<open>for(i = x-1, j = y-1; i >= 0 && j >= 0; --i, --j)\<close> visits \<open>(x-k, y-k)\<close> for
  \<open>k\<close> from 1 to the smaller of \<open>x\<close> and \<open>y\<close>.
\<close>

definition ray_E :: "int \<Rightarrow> int \<Rightarrow> (int \<times> int) list" where
  "ray_E x y = map (\<lambda>i. (i, y)) [x + 1 .. 7]"
definition ray_W :: "int \<Rightarrow> int \<Rightarrow> (int \<times> int) list" where
  "ray_W x y = map (\<lambda>i. (i, y)) (rev [0 .. x - 1])"
definition ray_S :: "int \<Rightarrow> int \<Rightarrow> (int \<times> int) list" where
  "ray_S x y = map (\<lambda>j. (x, j)) [y + 1 .. 7]"
definition ray_N :: "int \<Rightarrow> int \<Rightarrow> (int \<times> int) list" where
  "ray_N x y = map (\<lambda>j. (x, j)) (rev [0 .. y - 1])"
definition ray_NW :: "int \<Rightarrow> int \<Rightarrow> (int \<times> int) list" where
  "ray_NW x y = map (\<lambda>k. (x - k, y - k)) [1 .. min x y]"
definition ray_SW :: "int \<Rightarrow> int \<Rightarrow> (int \<times> int) list" where
  "ray_SW x y = map (\<lambda>k. (x - k, y + k)) [1 .. min x (7 - y)]"
definition ray_NE :: "int \<Rightarrow> int \<Rightarrow> (int \<times> int) list" where
  "ray_NE x y = map (\<lambda>k. (x + k, y - k)) [1 .. min (7 - x) y]"
definition ray_SE :: "int \<Rightarrow> int \<Rightarrow> (int \<times> int) list" where
  "ray_SE x y = map (\<lambda>k. (x + k, y + k)) [1 .. min (7 - x) (7 - y)]"

text \<open>
  One ray loop of \<open>IsCheck\<close>: true at the first attacker \<open>a1\<close> or \<open>a2\<close>, false when
  another piece stops the ray or the ray ends.
\<close>

fun attacked_on :: "Chess \<Rightarrow> int \<Rightarrow> int \<Rightarrow> (int \<times> int) list \<Rightarrow> bool" where
  "attacked_on c a1 a2 [] = False"
| "attacked_on c a1 a2 ((i, j) # r) =
    (if sq c i j = a1 then True
     else if sq c i j = a2 then True
     else if sq c i j \<noteq> EMPTY then False
     else attacked_on c a1 a2 r)"

text \<open>
  The search for the king runs through the columns \<open>i = 0, 1, ...\<close> and in each
  through the rows \<open>j = 0 .. 7\<close>.  With no king in the columns \<open>0 .. 7\<close> the loop
  leaves the array; the model returns \<open>None\<close> there.
\<close>

definition find_king :: "Chess \<Rightarrow> int \<Rightarrow> (int \<times> int) option" where
  "find_king c k = List.find (\<lambda>(i, j). sq c i j = k) (concat (map (\<lambda>i. map (\<lambda>j. (i, j)) [0 .. 7]) [0 .. 7]))"

definition near :: "int \<Rightarrow> int \<Rightarrow> (int \<times> int) list" where
  \<comment> \<open>\<open>for(i = x-1; i < x+2; ++i) for(j = y-1; j < y+2; ++j)\<close>\<close>
  "near x y = concat (map (\<lambda>i. map (\<lambda>j. (i, j)) [y - 1 .. y + 1]) [x - 1 .. x + 1])"

definition check_at :: "Chess \<Rightarrow> bool \<Rightarrow> int \<Rightarrow> int \<Rightarrow> bool" where
  \<comment> \<open>the body of \<open>IsCheck(turn)\<close> once the king is found on \<open>(x, y)\<close>\<close>
  "check_at c turn x y =
    (let t = 7 * b2i turn in
     if attacked_on c (W_ROOK - t) (W_QUEEN - t) (ray_E x y) then True
     else if attacked_on c (W_ROOK - t) (W_QUEEN - t) (ray_W x y) then True
     else if attacked_on c (W_ROOK - t) (W_QUEEN - t) (ray_S x y) then True
     else if attacked_on c (W_ROOK - t) (W_QUEEN - t) (ray_N x y) then True
     else if attacked_on c (W_BISHOP - t) (W_QUEEN - t) (ray_NW x y) then True
     else if attacked_on c (W_BISHOP - t) (W_QUEEN - t) (ray_SW x y) then True
     else if attacked_on c (W_BISHOP - t) (W_QUEEN - t) (ray_NE x y) then True
     else if attacked_on c (W_BISHOP - t) (W_QUEEN - t) (ray_SE x y) then True
     else if list_ex (\<lambda>(i, j). sq c i j = W_KING - t \<and> WithinBounds i \<and> WithinBounds j) (near x y) then True
     else if sq c (x - 2) (y - 1) = W_KNIGHT - t \<and> y > 0 \<and> x > 1 then True
     else if sq c (x + 2) (y - 1) = W_KNIGHT - t \<and> y > 0 \<and> x < BOARD_SIZE - 2 then True
     else if sq c (x - 2) (y + 1) = W_KNIGHT - t \<and> y < BOARD_SIZE - 1 \<and> x > 1 then True
     else if sq c (x + 2) (y + 1) = W_KNIGHT - t \<and> y < BOARD_SIZE - 1 \<and> x < BOARD_SIZE - 2 then True
     else if sq c (x - 1) (y - 2) = W_KNIGHT - t \<and> y > 1 \<and> x > 0 then True
     else if sq c (x + 1) (y - 2) = W_KNIGHT - t \<and> y > 1 \<and> x < BOARD_SIZE - 1 then True
     else if sq c (x - 1) (y + 2) = W_KNIGHT - t \<and> y < BOARD_SIZE - 2 \<and> x > 0 then True
     else if sq c (x + 1) (y + 2) = W_KNIGHT - t \<and> y < BOARD_SIZE - 2 \<and> x < BOARD_SIZE - 1 then True
     else if sq c (x + 1) (y + (if turn then -1 else 1)) = W_PAWN - t \<and> x < BOARD_SIZE - 1 then True
     else if sq c (x - 1) (y + (if turn then -1 else 1)) = W_PAWN - t \<and> x > 0 then True
     else False)"

definition IsCheck :: "Chess \<Rightarrow> bool \<Rightarrow> bool option" where
  "IsCheck c turn =
    (case find_king c (B_KING + 7 * b2i turn) of
       None \<Rightarrow> None
     | Some (x, y) \<Rightarrow> Some (check_at c turn x y))"

text \<open>
  \<open>IsCheck(std::string &move)\<close>: apply the move, ask whether the side that moved
  is in check, undo the move.  The function returns the answer and leaves the
  game in the state after the undo.
\<close>

definition IsCheck_move :: "Input \<Rightarrow> Chess \<Rightarrow> cstring \<Rightarrow> (bool \<times> Chess) option" where
  "IsCheck_move inp c move =
    (let m = ChangeToRealCoordinates move;
         c1 = MovePiece inp c (chr_at m 0) (chr_at m 1) (chr_at m 2) (chr_at m 3) False False
     in case IsCheck c1 (\<not> whites_turn c1) of
          None \<Rightarrow> None
        | Some is_check \<Rightarrow>
            (case MovePieceBack c1 (chr_at m 0) (chr_at m 1) (chr_at m 2) (chr_at m 3) of
               None \<Rightarrow> None
             | Some c2 \<Rightarrow> Some (is_check, c2)))"


section \<open>Move generator\<close>

text \<open>
  A \<open>std::forward_list<std::string>\<close> is a list; \<open>emplace_front\<close> is \<open>#\<close>.  The two
  lambdas \<open>IsValid\<close> of the generators:
\<close>

definition IsValid_capture :: "Chess \<Rightarrow> int \<Rightarrow> bool" where
  \<comment> \<open>pawn, rook, bishop: \<open>ch < 0\<close> for white to move, \<open>ch > 0\<close> for black\<close>
  "IsValid_capture c ch = (if whites_turn c then ch < 0 else ch > 0)"

definition IsValid_target :: "Chess \<Rightarrow> int \<Rightarrow> bool" where
  \<comment> \<open>knight, king: \<open>ch <= 0\<close> for white to move, \<open>ch >= 0\<close> for black\<close>
  "IsValid_target c ch = (if whites_turn c then ch \<le> 0 else ch \<ge> 0)"

definition GetEnPassant :: "Chess \<Rightarrow> int \<Rightarrow> int \<Rightarrow> int" where
  "GetEnPassant c x y =
    (if all_game_moves c = [] then -1
     else if back_kind c \<noteq> NORMAL then -1
     else
      (let last_move = ChangeToRealCoordinates (back_str c) in
       if chr_at last_move 4 = W_PAWN - 7 * b2i (whites_turn c)
          \<and> \<bar>chr_at last_move 0 - x\<bar> = 1
          \<and> chr_at last_move 3 - chr_at last_move 1 = 2 * (if whites_turn c then 1 else -1)
          \<and> y = 4 - b2i (whites_turn c)
       then chr_at last_move 0 else -1))"

definition PawnMoves :: "Chess \<Rightarrow> int \<Rightarrow> int \<Rightarrow> cstring list" where
  "PawnMoves c x y =
    (let inc = (if whites_turn c then -1 else 1);
         m1 = (if sq c x (y + inc) = EMPTY then
                 (if y = 1 + 5 * b2i (whites_turn c) \<and> sq c x (y + 2 * inc) = EMPTY
                  then [ToString x y x (y + 2 * inc), ToString x y x (y + inc)]
                  else [ToString x y x (y + inc)])
               else []);
         m2 = (if GetEnPassant c x y \<noteq> -1
               then ToString x y (GetEnPassant c x y) (y + inc) # m1 else m1);
         m3 = (if IsValid_capture c (sq c (x + 1) (y + inc)) \<and> x < BOARD_SIZE - 1
               then ToString x y (x + 1) (y + inc) # m2 else m2)
     in if IsValid_capture c (sq c (x - 1) (y + inc)) \<and> x > 0
        then ToString x y (x - 1) (y + inc) # m3 else m3)"

text \<open>
  One ray loop of the sliding pieces: every empty square is a target; the first
  occupied square is a target when it holds an enemy piece, and ends the loop.
\<close>

fun slide :: "Chess \<Rightarrow> int \<Rightarrow> int \<Rightarrow> (int \<times> int) list \<Rightarrow> cstring list \<Rightarrow> cstring list" where
  "slide c x y [] all_moves = all_moves"
| "slide c x y ((i, j) # r) all_moves =
    (if sq c i j = EMPTY then slide c x y r (ToString x y i j # all_moves)
     else if IsValid_capture c (sq c i j) then ToString x y i j # all_moves
     else all_moves)"

definition RookMoves :: "Chess \<Rightarrow> int \<Rightarrow> int \<Rightarrow> cstring list" where
  "RookMoves c x y =
    slide c x y (ray_N x y) (slide c x y (ray_S x y) (slide c x y (ray_W x y) (slide c x y (ray_E x y) [])))"

definition BishopMoves :: "Chess \<Rightarrow> int \<Rightarrow> int \<Rightarrow> cstring list" where
  "BishopMoves c x y =
    slide c x y (ray_SE x y) (slide c x y (ray_NE x y) (slide c x y (ray_SW x y) (slide c x y (ray_NW x y) [])))"

definition KnightMoves :: "Chess \<Rightarrow> int \<Rightarrow> int \<Rightarrow> cstring list" where
  "KnightMoves c x y =
    (let m1 = (if IsValid_target c (sq c (x - 2) (y - 1)) \<and> y > 0 \<and> x > 1
               then [ToString x y (x - 2) (y - 1)] else []);
         m2 = (if IsValid_target c (sq c (x + 2) (y - 1)) \<and> y > 0 \<and> x < BOARD_SIZE - 2
               then ToString x y (x + 2) (y - 1) # m1 else m1);
         m3 = (if IsValid_target c (sq c (x - 2) (y + 1)) \<and> y < BOARD_SIZE - 1 \<and> x > 1
               then ToString x y (x - 2) (y + 1) # m2 else m2);
         m4 = (if IsValid_target c (sq c (x + 2) (y + 1)) \<and> y < BOARD_SIZE - 1 \<and> x < BOARD_SIZE - 2
               then ToString x y (x + 2) (y + 1) # m3 else m3);
         m5 = (if IsValid_target c (sq c (x - 1) (y - 2)) \<and> y > 1 \<and> x > 0
               then ToString x y (x - 1) (y - 2) # m4 else m4);
         m6 = (if IsValid_target c (sq c (x + 1) (y - 2)) \<and> y > 1 \<and> x < BOARD_SIZE - 1
               then ToString x y (x + 1) (y - 2) # m5 else m5);
         m7 = (if IsValid_target c (sq c (x - 1) (y + 2)) \<and> y < BOARD_SIZE - 2 \<and> x > 0
               then ToString x y (x - 1) (y + 2) # m6 else m6)
     in if IsValid_target c (sq c (x + 1) (y + 2)) \<and> y < BOARD_SIZE - 2 \<and> x < BOARD_SIZE - 1
        then ToString x y (x + 1) (y + 2) # m7 else m7)"

text \<open>
  \<open>forward_list::merge\<close> walks both lists and takes the head of the argument when
  it is smaller than the head of the receiver, else the head of the receiver.
  The lists of the generators are not sorted; the walk is the same.  Strings
  compare lexicographically (the characters of a move are letters and digits).
\<close>

fun str_less :: "cstring \<Rightarrow> cstring \<Rightarrow> bool" where
  "str_less [] [] = False"
| "str_less [] (b # bs) = True"
| "str_less (a # as) [] = False"
| "str_less (a # as) (b # bs) = (a < b \<or> (a = b \<and> str_less as bs))"

fun merge_fl :: "cstring list \<Rightarrow> cstring list \<Rightarrow> cstring list" where
  "merge_fl [] ys = ys"
| "merge_fl (x # xs) [] = x # xs"
| "merge_fl (x # xs) (y # ys) =
    (if str_less y x then y # merge_fl (x # xs) ys else x # merge_fl xs (y # ys))"

definition QueenMoves :: "Chess \<Rightarrow> int \<Rightarrow> int \<Rightarrow> cstring list" where
  "QueenMoves c x y = merge_fl (RookMoves c x y) (BishopMoves c x y)"

definition king_steps :: "Chess \<Rightarrow> int \<Rightarrow> int \<Rightarrow> cstring list" where
  \<comment> \<open>the double loop of \<open>KingMoves\<close>; each hit is put in front of the list\<close>
  "king_steps c x y =
    rev (map (\<lambda>(i, j). ToString x y i j)
          (filter (\<lambda>(i, j). IsValid_target c (sq c i j) \<and> WithinBounds i \<and> WithinBounds j) (near x y)))"

definition KingMoves :: "Chess \<Rightarrow> int \<Rightarrow> int \<Rightarrow> cstring list option" where
  "KingMoves c x y =
    (let all_moves = king_steps c x y in
     if GetCastling c then
       (case IsCheck c (whites_turn c) of
          None \<Rightarrow> None
        | Some True \<Rightarrow> Some all_moves
        | Some False \<Rightarrow>
           (let line = (BOARD_SIZE - 1) * b2i (whites_turn c) in
            if sq c 0 line = B_ROOK + 7 * b2i (whites_turn c) \<and> sq c 1 line = EMPTY
               \<and> sq c 2 line = EMPTY \<and> sq c 3 line = EMPTY
            then Some (ToString 4 line 2 line # all_moves)
            else if sq c 7 line = B_ROOK + 7 * b2i (whites_turn c) \<and> sq c 5 line = EMPTY
               \<and> sq c 6 line = EMPTY
            then Some (ToString 4 line 6 line # all_moves)
            else Some all_moves))
     else Some all_moves)"

definition piece_moves :: "Chess \<Rightarrow> int \<Rightarrow> int \<Rightarrow> cstring list option" where
  \<comment> \<open>the \<open>switch\<close> of \<open>AllMoves\<close> for the square \<open>(x, y)\<close>\<close>
  "piece_moves c x y =
    (let p = sq c x y in
     if (p < 0) = whites_turn c then Some []
     else if p = W_PAWN \<or> p = B_PAWN then Some (PawnMoves c x y)
     else if p = W_ROOK \<or> p = B_ROOK then Some (RookMoves c x y)
     else if p = W_KNIGHT \<or> p = B_KNIGHT then Some (KnightMoves c x y)
     else if p = W_BISHOP \<or> p = B_BISHOP then Some (BishopMoves c x y)
     else if p = W_QUEEN \<or> p = B_QUEEN then Some (QueenMoves c x y)
     else if p = W_KING \<or> p = B_KING then KingMoves c x y
     else Some [])"

fun collect_moves :: "Chess \<Rightarrow> (int \<times> int) list \<Rightarrow> cstring list \<Rightarrow> cstring list option" where
  "collect_moves c [] all_moves = Some all_moves"
| "collect_moves c ((x, y) # r) all_moves =
    (case piece_moves c x y of
       None \<Rightarrow> None
     | Some ms \<Rightarrow> collect_moves c r (merge_fl all_moves ms))"

definition squares :: "(int \<times> int) list" where
  \<comment> \<open>\<open>for(y = 0; y < 8; ++y) for(x = 0; x < 8; ++x)\<close>\<close>
  "squares = concat (map (\<lambda>y. map (\<lambda>x. (x, y)) [0 .. 7]) [0 .. 7])"

text \<open>
  The legality filter: \<open>IsCheck(*it)\<close> on every candidate in the order of the list,
  each call on the game as the previous call left it.
\<close>

fun filter_moves :: "Input \<Rightarrow> Chess \<Rightarrow> cstring list \<Rightarrow> (cstring list \<times> Chess) option" where
  "filter_moves inp c [] = Some ([], c)"
| "filter_moves inp c (m # ms) =
    (case IsCheck_move inp c m of
       None \<Rightarrow> None
     | Some (is_check, c1) \<Rightarrow>
        (case filter_moves inp c1 ms of
           None \<Rightarrow> None
         | Some (r, c2) \<Rightarrow> Some (if is_check then r else m # r, c2)))"

definition AllMoves :: "Input \<Rightarrow> Chess \<Rightarrow> (cstring list \<times> Chess) option" where
  "AllMoves inp c =
    (case collect_moves c squares [] of
       None \<Rightarrow> None
     | Some all_moves \<Rightarrow> filter_moves inp c all_moves)"

definition Reset :: "Chess \<Rightarrow> Chess" where
  "Reset c = c\<lparr>board := (\<lambda>a. if 0 \<le> a \<and> a < 64 then STARTING_BOARD ! nat a else board c a),
              white_castling := True, black_castling := True,
              white_score := 0, black_score := 0,
              all_game_moves := [], whites_turn := True,
              moves_after_last_pawn_move_or_capture := 0\<rparr>"


section \<open>Endgame detector\<close>

text \<open>
  The second \<open>GetEnPassant\<close>: en-passant rights read off a board and one log entry.
  The loop over \<open>x\<close> returns \<open>last_move[0]\<close> at the first file that qualifies.
\<close>

definition GetEnPassant_at :: "Chess \<Rightarrow> (int \<Rightarrow> int) \<Rightarrow> Moves \<times> cstring \<Rightarrow> int" where
  "GetEnPassant_at c b e =
    (if fst e \<noteq> NORMAL then -1
     else
      (let last_move = ChangeToRealCoordinates (snd e) in
       if list_ex (\<lambda>x. b (cell x (3 + b2i (whites_turn c))) = W_PAWN - 7 * b2i (whites_turn c)
                      \<and> chr_at last_move 4 = B_PAWN + 7 * b2i (whites_turn c)
                      \<and> \<bar>chr_at last_move 0 - x\<bar> = 1
                      \<and> chr_at last_move 3 - chr_at last_move 1 = 2 * (if whites_turn c then -1 else 1))
            [0 .. 7]
       then chr_at last_move 0 else -1))"

definition AreBoardsEqual :: "(int \<Rightarrow> int) \<Rightarrow> (int \<Rightarrow> int) \<Rightarrow> bool" where
  \<comment> \<open>\<open>std::equal\<close> over the 64 bytes of the two arrays\<close>
  "AreBoardsEqual board1 board2 = list_all (\<lambda>a. board1 a = board2 a) [0 .. 63]"

text \<open>
  One pass of the inner \<open>for\<close> loop of \<open>ThreefoldRepetition\<close> on the entry \<open>e\<close> under
  the iterator: \<open>None\<close> is \<open>return false\<close>, otherwise the move is taken back on
  \<open>prev_board\<close>.
\<close>

definition rep_undo :: "Chess \<Rightarrow> nat \<Rightarrow> (int \<Rightarrow> int) \<Rightarrow> Moves \<times> cstring \<Rightarrow> (int \<Rightarrow> int) option" where
  "rep_undo c i prev_board e =
    (if fst e = CASTLING then None
     else if chr_at (snd e) 4 = W_PAWN \<or> chr_at (snd e) 4 = B_PAWN \<or> chr_at (snd e) 5 \<noteq> EMPTY then None
     else
      (let last_move = ChangeToRealCoordinates (snd e);
           b1 = prev_board(cell (chr_at last_move 0) (chr_at last_move 1) := chr_at last_move 4);
           b2 = b1(cell (chr_at last_move 2) (chr_at last_move 3) := EMPTY)
       in if fst e = EN_PASSANT
          then Some (b2(cell (chr_at last_move 2) (chr_at last_move 1) :=
                          (if int i = b2i (whites_turn c) then B_PAWN else W_PAWN)))
          else Some b2))"

text \<open>
  The \<open>while(true)\<close> loop.  The list holds the entries from the iterator \<open>it\<close> to
  \<open>crend()\<close>, newest first.  Each round takes two entries back; when an increment
  of \<open>it\<close> reaches \<open>crend()\<close> the function returns false, which is the case of a
  list with fewer than three entries.
\<close>

fun rep_loop :: "Chess \<Rightarrow> (int \<Rightarrow> int) \<Rightarrow> 16 word \<Rightarrow> (Moves \<times> cstring) list \<Rightarrow> bool" where
  "rep_loop c prev_board position_count (e0 # e1 # e2 # rest) =
    (case rep_undo c 0 prev_board e0 of
       None \<Rightarrow> False
     | Some b1 \<Rightarrow>
        (case rep_undo c 1 b1 e1 of
           None \<Rightarrow> False
         | Some b2 \<Rightarrow>
            (if AreBoardsEqual b2 (board c)
                \<and> b2i (GetOtherCastling c) =
                    (if fst e2 = CASTLING then 0
                     else chr_at (snd e2) (6 + (if fst e2 = PROMOTION then 1 else 0)))
                \<and> (if length (all_game_moves c) > 1
                    then GetEnPassant_at c (board c) (all_game_moves c ! (length (all_game_moves c) - 2))
                    else -1)
                   = (case rest of [] \<Rightarrow> -1 | e3 # _ \<Rightarrow> GetEnPassant_at c b2 e3)
             then (if position_count + 1 = 3 then True
                   else rep_loop c b2 (position_count + 1) (e2 # rest))
             else rep_loop c b2 position_count (e2 # rest))))"
| "rep_loop c prev_board position_count es = False"

definition ThreefoldRepetition :: "Chess \<Rightarrow> bool option" where
  \<comment> \<open>\<open>None\<close>: the log is empty and \<open>crbegin()\<close> is dereferenced\<close>
  "ThreefoldRepetition c =
    (if all_game_moves c = [] then None
     else Some (rep_loop c (board c) 1 (rev (all_game_moves c))))"

text \<open>
  \<open>CheckEndgame\<close> returns the kind of ending it reports (\<open>EndGameText\<close> returns true
  for each of them), or no ending, together with the game it leaves behind.
\<close>

definition IncreaseOtherScore :: "int \<Rightarrow> Chess \<Rightarrow> Chess" where
  \<comment> \<open>\<open>GetOtherPlayer().IncreaseScore(inc)\<close>\<close>
  "IncreaseOtherScore inc c =
    (if whites_turn c then c\<lparr>black_score := black_score c + word_of_int inc\<rparr>
     else c\<lparr>white_score := white_score c + word_of_int inc\<rparr>)"

definition check_repetition :: "Chess \<Rightarrow> (Endgame option \<times> Chess) option" where
  \<comment> \<open>the last two statements of \<open>CheckEndgame\<close>\<close>
  "check_repetition c =
    (case ThreefoldRepetition c of
       None \<Rightarrow> None
     | Some True \<Rightarrow> Some (Some THREEFOLD_REP, c)
     | Some False \<Rightarrow> Some (None, c))"

definition count_move :: "Chess \<Rightarrow> (Endgame option \<times> Chess) option" where
  \<comment> \<open>\<open>++moves_after_last_pawn_move_or_capture == 50\<close> and what follows\<close>
  "count_move c =
    (let c1 = c\<lparr>moves_after_last_pawn_move_or_capture := moves_after_last_pawn_move_or_capture c + 1\<rparr>
     in if moves_after_last_pawn_move_or_capture c1 = 50 then Some (Some FIFTY_MOVES, c1)
        else check_repetition c1)"

definition endgame_after :: "cstring list \<Rightarrow> Chess \<Rightarrow> (Endgame option \<times> Chess) option" where
  \<comment> \<open>\<open>CheckEndgame\<close> from the test \<open>AllMoves().empty()\<close> on; \<open>None\<close>: \<open>back()\<close> of an empty log\<close>
  "endgame_after all_moves c =
    (if all_moves = [] then Some (Some CHECKMATE, IncreaseOtherScore (EvaluatePiece W_KING) c)
     else if all_game_moves c = [] then None
     else if back_kind c \<noteq> CASTLING then
       (if chr_at (back_str c) 4 = W_PAWN - 7 * b2i (whites_turn c)
        then check_repetition (c\<lparr>moves_after_last_pawn_move_or_capture := 0\<rparr>)
        else if chr_at (back_str c) 5 \<noteq> EMPTY
        then check_repetition (c\<lparr>moves_after_last_pawn_move_or_capture := 0\<rparr>)
        else count_move c)
     else count_move c)"

definition CheckEndgame :: "Input \<Rightarrow> Chess \<Rightarrow> (Endgame option \<times> Chess) option" where
  "CheckEndgame inp c =
    (case AllMoves inp c of
       None \<Rightarrow> None
     | Some (all_moves, c1) \<Rightarrow> endgame_after all_moves c1)"

section \<open>Search engine\<close>

text \<open>
  Scores are \<open>float\<close> in the source.  Every piece value and table entry is a
  multiple of 0.5 and a board sums at most 64 of them, so each sum is exact in
  \<open>float\<close>; the bounds 9999 and 10000 are exact too.  The scores are modelled as
  real numbers.
\<close>

definition PIECE_POS_POINTS :: "real list list list" where
  "PIECE_POS_POINTS =
   [[[- 3, - 4, - 4, - 5, - 5, - 4, - 4, - 3],
     [- 3, - 4, - 4, - 5, - 5, - 4, - 4, - 3],
     [- 3, - 4, - 4, - 5, - 5, - 4, - 4, - 3],
     [- 3, - 4, - 4, - 5, - 5, - 4, - 4, - 3],
     [- 2, - 3, - 3, - 4, - 4, - 3, - 3, - 2],
     [- 1, - 2, - 2, - 2, - 2, - 2, - 2, - 1],
     [2, 2, 0, 0, 0, 0, 2, 2],
     [2, 3, 1, 0, 0, 1, 3, 2]],

    [[- 2, - 1, - 1, - 1 / 2, - 1 / 2, - 1, - 1, - 2],
     [- 1, 0, 0, 0, 0, 0, 0, - 1],
     [- 1, 0, 1 / 2, 1 / 2, 1 / 2, 1 / 2, 0, - 1],
     [- 1 / 2, 0, 1 / 2, 1 / 2, 1 / 2, 1 / 2, 0, - 1 / 2],
     [0, 0, 1 / 2, 1 / 2, 1 / 2, 1 / 2, 0, - 1 / 2],
     [- 1, 1 / 2, 1 / 2, 1 / 2, 1 / 2, 1 / 2, 0, - 1],
     [- 1, 0, 1 / 2, 0, 0, 0, 0, - 1],
     [- 2, - 1, - 1, - 1 / 2, - 1 / 2, - 1, - 1, - 2]],

    [[- 2, - 1, - 1, - 1, - 1, - 1, - 1, - 2],
     [- 1, 0, 0, 0, 0, 0, 0, - 1],
     [- 1, 0, 1 / 2, 1, 1, 1 / 2, 0, - 1],
     [- 1, 1 / 2, 1 / 2, 1, 1, 1 / 2, 1 / 2, - 1],
     [- 1, 0, 1, 1, 1, 1, 0, - 1],
     [- 1, 1, 1, 1, 1, 1, 1, - 1],
     [- 1, 1 / 2, 0, 0, 0, 0, 1 / 2, - 1],
     [- 2, - 1, - 1, - 1, - 1, - 1, - 1, - 2]],

    [[- 5, - 4, - 3, - 3, - 3, - 3, - 4, - 5],
     [- 4, - 2, 0, 0, 0, 0, - 2, - 4],
     [- 3, 0, 1, 3 / 2, 3 / 2, 1, 0, - 3],
     [- 3, 1 / 2, 3 / 2, 2, 2, 3 / 2, 1 / 2, - 3],
     [- 3, 0, 3 / 2, 2, 2, 3 / 2, 0, - 3],
     [- 3, 1 / 2, 1, 3 / 2, 3 / 2, 1, 1 / 2, - 3],
     [- 4, - 2, 0, 1 / 2, 1 / 2, 0, - 2, - 4],
     [- 5, - 4, - 3, - 3, - 3, - 3, - 4, - 5]],

    [[0, 0, 0, 0, 0, 0, 0, 0],
     [1 / 2, 1, 1, 1, 1, 1, 1, 1 / 2],
     [- 1 / 2, 0, 0, 0, 0, 0, 0, - 1 / 2],
     [- 1 / 2, 0, 0, 0, 0, 0, 0, - 1 / 2],
     [- 1 / 2, 0, 0, 0, 0, 0, 0, - 1 / 2],
     [- 1 / 2, 0, 0, 0, 0, 0, 0, - 1 / 2],
     [- 1 / 2, 0, 0, 0, 0, 0, 0, - 1 / 2],
     [0, 0, 0, 1 / 2, 1 / 2, 0, 0, 0]],

    [[0, 0, 0, 0, 0, 0, 0, 0],
     [5, 5, 5, 5, 5, 5, 5, 5],
     [1, 1, 2, 3, 3, 2, 1, 1],
     [1 / 2, 1 / 2, 1, 5 / 2, 5 / 2, 1, 1 / 2, 1 / 2],
     [0, 0, 0, 2, 2, 0, 0, 0],
     [1 / 2, - 1 / 2, - 1, 0, 0, - 1, - 1 / 2, 1 / 2],
     [1 / 2, 1, 1, - 2, - 2, 1, 1, 1 / 2],
     [0, 0, 0, 0, 0, 0, 0, 0]]]"

text \<open>
  \<open>EvaluatePosition\<close> indexes the table with \<open>board[y][x] + 7*(board[y][x] < 0) - 1\<close>;
  \<open>None\<close> when the square holds no piece code and the index leaves the table.
\<close>

definition EvaluatePosition :: "Chess \<Rightarrow> int \<Rightarrow> int \<Rightarrow> real option" where
  "EvaluatePosition c x y =
    (let p = sq c x y in
     if p = EMPTY then Some 0
     else
      (let k = p + 7 * b2i (p < 0) - 1;
           r = (if p < 0 then BOARD_SIZE - y - 1 else y) in
       if 0 \<le> k \<and> k < 6 \<and> 0 \<le> r \<and> r < 8 \<and> 0 \<le> x \<and> x < 8
       then Some ((if p < 0 then -1 else 1) *
                  (real_of_int (EvaluatePiece p) + PIECE_POS_POINTS ! nat k ! nat r ! nat x))
       else None))"

fun sum_positions :: "Chess \<Rightarrow> (int \<times> int) list \<Rightarrow> real \<Rightarrow> real option" where
  "sum_positions c [] total_evaluation = Some total_evaluation"
| "sum_positions c ((x, y) # r) total_evaluation =
    (case EvaluatePosition c x y of
       None \<Rightarrow> None
     | Some v \<Rightarrow> sum_positions c r (total_evaluation + v))"

definition EvaluateBoard :: "Chess \<Rightarrow> bool \<Rightarrow> real option" where
  "EvaluateBoard c turn =
    map_option (\<lambda>total_evaluation. (if turn then 1 else -1) * total_evaluation)
      (sum_positions c squares 0)"

text \<open>
  \<open>child_node_list\<close> is a \<open>std::map\<close> keyed by the move in board coordinates: its keys
  are kept in increasing order and a key that is present is not inserted again.
  Every child is a fresh node, and each call clears the map it filled, so a node
  is its list of keys.
\<close>

fun emplace :: "cstring \<Rightarrow> cstring list \<Rightarrow> cstring list" where
  "emplace k [] = [k]"
| "emplace k (n # ns) =
    (if str_less k n then k # n # ns
     else if str_less n k then n # emplace k ns
     else n # ns)"

definition CreateSubtree :: "Input \<Rightarrow> Chess \<Rightarrow> (cstring list \<times> Chess) option" where
  "CreateSubtree inp c =
    (case AllMoves inp c of
       None \<Rightarrow> None
     | Some (all_moves, c1) \<Rightarrow>
         Some (fold (\<lambda>move nodes. emplace (ChangeToRealCoordinates move) nodes) all_moves [], c1))"

text \<open>
  The loop of \<open>AlphaBeta\<close> over the children; \<open>deeper\<close> is the recursive call on the
  child with the depth decremented.  The result is the score returned and the
  game the loop leaves behind.
\<close>

fun ab_loop :: "(Chess \<Rightarrow> real \<Rightarrow> real \<Rightarrow> (real \<times> Chess) option) \<Rightarrow> Input \<Rightarrow> bool \<Rightarrow> Chess \<Rightarrow>
    cstring list \<Rightarrow> real \<Rightarrow> real \<Rightarrow> real \<Rightarrow> (real \<times> Chess) option" where
  "ab_loop deeper inp maximizing_player c [] points alpha beta = Some (points, c)"
| "ab_loop deeper inp maximizing_player c (n # ns) points alpha beta =
    (if GetPiece c (chr_at n 2) (chr_at n 3) = W_KING - 7 * b2i (GetTurn c)
     then Some (if maximizing_player then 9999 else -9999, c)
     else
      (case deeper (MovePiece inp c (chr_at n 0) (chr_at n 1) (chr_at n 2) (chr_at n 3) False False)
              alpha beta of
         None \<Rightarrow> None
       | Some (v, c1) \<Rightarrow>
          (case MovePieceBack c1 (chr_at n 0) (chr_at n 1) (chr_at n 2) (chr_at n 3) of
             None \<Rightarrow> None
           | Some c2 \<Rightarrow>
              (let points' = (if maximizing_player then max points v else min points v);
                   alpha' = (if maximizing_player then max alpha points' else alpha);
                   beta' = (if maximizing_player then beta else min beta points')
               in if alpha' \<ge> beta' then Some (points', c2)
                  else ab_loop deeper inp maximizing_player c2 ns points' alpha' beta'))))"

primrec AlphaBeta :: "nat \<Rightarrow> Input \<Rightarrow> Chess \<Rightarrow> real \<Rightarrow> real \<Rightarrow> bool \<Rightarrow> bool \<Rightarrow> (real \<times> Chess) option" where
  "AlphaBeta 0 inp c alpha beta maximizing_player initial_turn =
    map_option (\<lambda>v. (v, c)) (EvaluateBoard c initial_turn)"
| "AlphaBeta (Suc depth) inp c alpha beta maximizing_player initial_turn =
    (case CreateSubtree inp c of
       None \<Rightarrow> None
     | Some (nodes, c1) \<Rightarrow>
         ab_loop (\<lambda>c' a b. AlphaBeta depth inp c' a b (\<not> maximizing_player) initial_turn)
           inp maximizing_player c1 nodes (if maximizing_player then -9999 else 9999) alpha beta)"

text \<open>
  The loop of \<open>AlphaBetaRoot\<close>: \<open>Inl move\<close> is the early return of a move that takes
  the king, \<open>Inr ideal_moves\<close> the list collected when the loop ends.
\<close>

fun root_loop :: "nat \<Rightarrow> Input \<Rightarrow> Chess \<Rightarrow> cstring list \<Rightarrow> cstring list \<Rightarrow> real \<Rightarrow>
    ((cstring + cstring list) \<times> Chess) option" where
  "root_loop difficulty inp c [] ideal_moves max_move_score = Some (Inr ideal_moves, c)"
| "root_loop difficulty inp c (n # ns) ideal_moves max_move_score =
    (if GetPiece c (chr_at n 2) (chr_at n 3) = W_KING - 7 * b2i (GetTurn c) then Some (Inl n, c)
     else
      (let c1 = MovePiece inp c (chr_at n 0) (chr_at n 1) (chr_at n 2) (chr_at n 3) False False in
       case AlphaBeta difficulty inp c1 (-10000) 10000 False (\<not> GetTurn c1) of
         None \<Rightarrow> None
       | Some (move_score, c2) \<Rightarrow>
          (case MovePieceBack c2 (chr_at n 0) (chr_at n 1) (chr_at n 2) (chr_at n 3) of
             None \<Rightarrow> None
           | Some c3 \<Rightarrow>
              if move_score > max_move_score then root_loop difficulty inp c3 ns [n] move_score
              else if move_score = max_move_score
              then root_loop difficulty inp c3 ns (ideal_moves @ [n]) max_move_score
              else root_loop difficulty inp c3 ns ideal_moves max_move_score)))"

text \<open>
  \<open>AlphaBetaRoot\<close>; \<open>pick\<close> is the number drawn by
  \<open>GetRandomNumber(0, ideal_moves.size() - 1)\<close>.  With no ideal move the draw
  and the \<open>advance\<close> are undefined (\<open>None\<close>).
\<close>

definition AlphaBetaRoot :: "nat \<Rightarrow> Input \<Rightarrow> nat \<Rightarrow> Chess \<Rightarrow> (cstring \<times> Chess) option" where
  "AlphaBetaRoot pick inp difficulty c =
    (case CreateSubtree inp c of
       None \<Rightarrow> None
     | Some (nodes, c1) \<Rightarrow>
        (case root_loop difficulty inp c1 nodes [] (-9999) of
           None \<Rightarrow> None
         | Some (Inl move, c2) \<Rightarrow> Some (move, c2)
         | Some (Inr ideal_moves, c2) \<Rightarrow>
             if pick < length ideal_moves then Some (ideal_moves ! pick, c2) else None))"

section \<open>The check detector with every array access checked\<close>

text \<open>
  The same control flow as \<open>IsCheck(turn)\<close>, with \<open>board[j][i]\<close> read through
  \<open>board_at\<close>: \<open>None\<close> as soon as a read uses an index outside \<open>0 .. 7\<close>.  In
  \<open>board[j][i] == k && WithinBounds(i) && WithinBounds(j)\<close> the read comes first.
\<close>

definition board_at :: "Chess \<Rightarrow> int \<Rightarrow> int \<Rightarrow> int option" where
  "board_at c i j = (if WithinBounds i \<and> WithinBounds j then Some (sq c i j) else None)"

fun attacked_on_acc :: "Chess \<Rightarrow> int \<Rightarrow> int \<Rightarrow> (int \<times> int) list \<Rightarrow> bool option" where
  "attacked_on_acc c a1 a2 [] = Some False"
| "attacked_on_acc c a1 a2 ((i, j) # r) =
    (case board_at c i j of
       None \<Rightarrow> None
     | Some v \<Rightarrow>
        if v = a1 then Some True
        else if v = a2 then Some True
        else if v \<noteq> EMPTY then Some False
        else attacked_on_acc c a1 a2 r)"

definition probe :: "Chess \<Rightarrow> int \<Rightarrow> int \<Rightarrow> int \<Rightarrow> bool \<Rightarrow> bool option" where
  \<comment> \<open>\<open>board[j][i] == k && guard\<close>\<close>
  "probe c i j k guard = (case board_at c i j of None \<Rightarrow> None | Some v \<Rightarrow> Some (v = k \<and> guard))"

text \<open>A chain \<open>if(t1) return true; else if(t2) return true; ... return false\<close>.\<close>

fun first_true :: "bool option list \<Rightarrow> bool option" where
  "first_true [] = Some False"
| "first_true (None # r) = None"
| "first_true (Some True # r) = Some True"
| "first_true (Some False # r) = first_true r"

definition check_at_acc :: "Chess \<Rightarrow> bool \<Rightarrow> int \<Rightarrow> int \<Rightarrow> bool option" where
  "check_at_acc c turn x y =
    (let t = 7 * b2i turn; d = (if turn then -1 else 1) in
     first_true
      ([attacked_on_acc c (W_ROOK - t) (W_QUEEN - t) (ray_E x y),
        attacked_on_acc c (W_ROOK - t) (W_QUEEN - t) (ray_W x y),
        attacked_on_acc c (W_ROOK - t) (W_QUEEN - t) (ray_S x y),
        attacked_on_acc c (W_ROOK - t) (W_QUEEN - t) (ray_N x y),
        attacked_on_acc c (W_BISHOP - t) (W_QUEEN - t) (ray_NW x y),
        attacked_on_acc c (W_BISHOP - t) (W_QUEEN - t) (ray_SW x y),
        attacked_on_acc c (W_BISHOP - t) (W_QUEEN - t) (ray_NE x y),
        attacked_on_acc c (W_BISHOP - t) (W_QUEEN - t) (ray_SE x y)]
       @ map (\<lambda>(i, j). probe c i j (W_KING - t) (WithinBounds i \<and> WithinBounds j)) (near x y)
       @ [probe c (x - 2) (y - 1) (W_KNIGHT - t) (y > 0 \<and> x > 1),
          probe c (x + 2) (y - 1) (W_KNIGHT - t) (y > 0 \<and> x < BOARD_SIZE - 2),
          probe c (x - 2) (y + 1) (W_KNIGHT - t) (y < BOARD_SIZE - 1 \<and> x > 1),
          probe c (x + 2) (y + 1) (W_KNIGHT - t) (y < BOARD_SIZE - 1 \<and> x < BOARD_SIZE - 2),
          probe c (x - 1) (y - 2) (W_KNIGHT - t) (y > 1 \<and> x > 0),
          probe c (x + 1) (y - 2) (W_KNIGHT - t) (y > 1 \<and> x < BOARD_SIZE - 1),
          probe c (x - 1) (y + 2) (W_KNIGHT - t) (y < BOARD_SIZE - 2 \<and> x > 0),
          probe c (x + 1) (y + 2) (W_KNIGHT - t) (y < BOARD_SIZE - 2 \<and> x < BOARD_SIZE - 1),
          probe c (x + 1) (y + d) (W_PAWN - t) (x < BOARD_SIZE - 1),
          probe c (x - 1) (y + d) (W_PAWN - t) (x > 0)]))"

definition IsCheck_acc :: "Chess \<Rightarrow> bool \<Rightarrow> bool option" where
  "IsCheck_acc c turn =
    (case find_king c (B_KING + 7 * b2i turn) of
       None \<Rightarrow> None
     | Some (x, y) \<Rightarrow> check_at_acc c turn x y)"

section \<open>Games used as examples\<close>

text \<open>
  A new game as the constructor makes it, with the memory around the board
  array holding zeros, and both bots searching (the only setting \<open>main\<close> uses).
\<close>

definition mem_of :: "int list \<Rightarrow> int \<Rightarrow> int" where
  "mem_of l a = (if 0 \<le> a \<and> a < 64 then l ! nat a else 0)"

definition new_game :: Chess where
  "new_game = \<lparr>board = mem_of STARTING_BOARD,
     white_castling = True, black_castling = True, white_score = 0, black_score = 0,
     all_game_moves = [], whites_turn = True, moves_after_last_pawn_move_or_capture = 0,
     white_bot_random = False, black_bot_random = False\<rparr>"

definition no_input :: Input where
  "no_input = \<lparr>key = Key_q, rnd = 2\<rparr>"

text \<open>Playing a list of moves \<open>(x1, y1, x2, y2)\<close> the way the search does.\<close>

fun play :: "Chess \<Rightarrow> (int \<times> int \<times> int \<times> int) list \<Rightarrow> Chess" where
  "play c [] = c"
| "play c ((x1, y1, x2, y2) # ms) = play (MovePiece no_input c x1 y1 x2 y2 False False) ms"


section \<open>When a simulated move is taken back exactly\<close>

text \<open>
  The conditions on a game and a move under which \<open>MovePieceBack\<close> after
  \<open>MovePiece(..., false, false)\<close> gives the game back.  \<open>entry_flag\<close> is the castling
  flag that \<open>MovePieceBack\<close> reads from a log entry; \<open>flag_logged\<close> says that the
  entry three from the end, once the move is logged, holds the mover's flag.
\<close>

definition on_board :: "int \<Rightarrow> int \<Rightarrow> bool" where
  "on_board x y = (WithinBounds x \<and> WithinBounds y)"

definition entry_flag :: "Moves \<times> cstring \<Rightarrow> bool" where
  "entry_flag e = (fst e \<noteq> CASTLING \<and> chr_at (snd e) (6 + (if fst e = PROMOTION then 1 else 0)) \<noteq> 0)"

definition flag_logged :: "Chess \<Rightarrow> bool" where
  "flag_logged c = (let n = length (all_game_moves c) in
     n \<ge> 2 \<and> entry_flag (all_game_moves c ! (n - 2)) = GetCastling c)"

definition promotes :: "Chess \<Rightarrow> int \<Rightarrow> bool" where
  "promotes c y2 = (y2 = (BOARD_SIZE - 1) * b2i (\<not> whites_turn c))"

definition mover_random :: "Chess \<Rightarrow> bool" where
  "mover_random c = (if whites_turn c then white_bot_random c else black_bot_random c)"

definition undo_ok :: "Chess \<Rightarrow> int \<Rightarrow> int \<Rightarrow> int \<Rightarrow> int \<Rightarrow> bool" where
  "undo_ok c x1 y1 x2 y2 =
    (on_board x1 y1 \<and> on_board x2 y2 \<and> (x1 \<noteq> x2 \<or> y1 \<noteq> y2) \<and>
     (let p = sq c x1 y1 in
      if p = W_PAWN \<or> p = B_PAWN then
        (if promotes c y2 then p = (if whites_turn c then W_PAWN else B_PAWN) \<and> \<not> mover_random c
         else if x1 \<noteq> x2 \<and> sq c x2 y2 = EMPTY
         then y1 \<noteq> y2 \<and> sq c x2 y1 = (if whites_turn c then B_PAWN else W_PAWN)
         else True)
      else if p = W_KING \<or> p = B_KING then
        (if GetCastling c \<and> (x2 = 2 \<or> x2 = 6)
         then x2 = 2 \<and> x1 = 4 \<and> y1 = (BOARD_SIZE - 1) * b2i (whites_turn c) \<and> y2 = y1
              \<and> p = (if whites_turn c then W_KING else B_KING)
              \<and> sq c 3 y1 = EMPTY \<and> sq c 2 y1 = EMPTY
         else flag_logged c)
      else if p = W_ROOK \<or> p = B_ROOK then flag_logged c
      else True))"

text \<open>
  The legality filter computed on a game that every candidate leaves unchanged:
  \<open>move_ok\<close> is the answer of \<open>IsCheck(move)\<close> for one candidate, \<open>legal_on\<close> the
  filtered list.  Both are \<open>None\<close> when a candidate does not satisfy \<open>undo_ok\<close>.
\<close>

definition move_ok :: "Input \<Rightarrow> Chess \<Rightarrow> int \<Rightarrow> int \<Rightarrow> int \<Rightarrow> int \<Rightarrow> bool option" where
  "move_ok inp c x1 y1 x2 y2 =
    (if undo_ok c x1 y1 x2 y2
     then IsCheck (MovePiece inp c x1 y1 x2 y2 False False) (whites_turn c)
     else None)"

fun keep :: "cstring \<Rightarrow> bool option \<Rightarrow> cstring list option \<Rightarrow> cstring list option" where
  "keep m (Some is_check) (Some r) = Some (if is_check then r else m # r)"
| "keep m _ _ = None"

fun legal_on :: "Input \<Rightarrow> Chess \<Rightarrow> cstring list \<Rightarrow> cstring list option" where
  "legal_on inp c [] = Some []"
| "legal_on inp c (m # ms) =
    keep m (move_ok inp c (chr_at (ChangeToRealCoordinates m) 0) (chr_at (ChangeToRealCoordinates m) 1)
                          (chr_at (ChangeToRealCoordinates m) 2) (chr_at (ChangeToRealCoordinates m) 3))
      (legal_on inp c ms)"

definition offers :: "cstring list option \<Rightarrow> cstring \<Rightarrow> bool" where
  \<comment> \<open>a generator returned a list and the move is in it\<close>
  "offers r m = (case r of None \<Rightarrow> False | Some ms \<Rightarrow> m \<in> set ms)"

definition endgame_kind :: "(Endgame option \<times> Chess) option \<Rightarrow> Endgame option option" where
  "endgame_kind r = map_option fst r"

definition endgame_counter :: "(Endgame option \<times> Chess) option \<Rightarrow> 16 word option" where
  "endgame_counter r = map_option (\<lambda>(e, c). moves_after_last_pawn_move_or_capture c) r"


text \<open>
  1. e4 a6 2. e5 d5: the black d-pawn has just advanced two squares and stands
  beside the white pawn on e5.
\<close>

definition game_en_passant :: Chess where
  "game_en_passant = play new_game [(4, 6, 4, 4), (0, 1, 0, 2), (4, 4, 4, 3), (3, 1, 3, 3)]"

text \<open>
  1. Nf3 Nf6 2. Nc3 Nc6 3. e4 e5 4. d4 d5 5. Bc4 Bc5 6. Bf4 Bf5 7. Qd2 Qd7: White is
  to move, has not moved king or rooks, is not in check, and both wings of the
  first rank are empty between king and rook.
\<close>

definition game_both_wings :: Chess where
  "game_both_wings = play new_game
    [(6, 7, 5, 5), (6, 0, 5, 2), (1, 7, 2, 5), (1, 0, 2, 2), (4, 6, 4, 4), (4, 1, 4, 3),
     (3, 6, 3, 4), (3, 1, 3, 3), (5, 7, 2, 4), (5, 0, 2, 3), (2, 7, 5, 4), (2, 0, 5, 3),
     (3, 7, 3, 6), (3, 0, 3, 1)]"

text \<open>
  1. Nf3 Nf6 2. Ng1 Ng8 3. Nf3 Nf6 4. Ng1 Ng8, as the game stands when
  \<open>CheckEndgame\<close> runs after the eighth ply: the counter holds the seven plies
  counted before.  The starting position is on the board for the third time.
\<close>

definition shuffle :: "(int \<times> int \<times> int \<times> int) list" where
  "shuffle = [(6, 7, 5, 5), (6, 0, 5, 2), (5, 5, 6, 7), (5, 2, 6, 0),
              (6, 7, 5, 5), (6, 0, 5, 2), (5, 5, 6, 7), (5, 2, 6, 0)]"

definition game_shuffle :: Chess where
  "game_shuffle = (play new_game shuffle)\<lparr>moves_after_last_pawn_move_or_capture := 7\<rparr>"

text \<open>
  1. Nf3 Nf6 2. g3 g6 3. Bg2 Bg7: White is to move and can castle kingside.
\<close>

definition game_castle :: Chess where
  "game_castle = play new_game
    [(6, 7, 5, 5), (6, 0, 5, 2), (6, 6, 6, 5), (6, 1, 6, 2), (5, 7, 6, 6), (5, 0, 6, 1)]"

definition sq_of :: "Chess option \<Rightarrow> int \<Rightarrow> int \<Rightarrow> int option" where
  "sq_of r x y = map_option (\<lambda>c. sq c x y) r"

section \<open>Basic facts\<close>

lemmas piece_defs = B_KING_def B_QUEEN_def B_BISHOP_def B_KNIGHT_def B_ROOK_def B_PAWN_def
  EMPTY_def W_KING_def W_QUEEN_def W_BISHOP_def W_KNIGHT_def W_ROOK_def W_PAWN_def

lemmas ray_defs = ray_E_def ray_W_def ray_S_def ray_N_def ray_NW_def ray_SW_def ray_NE_def ray_SE_def

lemma ToString_eq:
  "ToString x1 y1 x2 y2 = ToString a1 b1 a2 b2 \<longleftrightarrow> x1 = a1 \<and> y1 = b1 \<and> x2 = a2 \<and> y2 = b2"
  by (auto simp: ToString_def)


lemma cell_inj:
  assumes "0 \<le> x" "x < 8" "0 \<le> x'" "x' < 8"
  shows "cell x y = cell x' y' \<longleftrightarrow> x = x' \<and> y = y'"
proof
  assume e: "cell x y = cell x' y'"
  then have "(8 * y + x) mod 8 = (8 * y' + x') mod 8" by (simp add: cell_def)
  then have "x mod 8 = x' mod 8" by simp
  with assms have "x = x'" by simp
  with e show "x = x' \<and> y = y'" by (simp add: cell_def)
qed simp

lemma on_board_cell: "on_board x y \<Longrightarrow> on_board x' y' \<Longrightarrow> cell x y = cell x' y' \<longleftrightarrow> x = x' \<and> y = y'"
  by (simp add: on_board_def WithinBounds_def BOARD_SIZE_def cell_inj)

lemma own_king_cases: "B_KING + 7 * b2i t = (if t then W_KING else B_KING)"
  by (simp add: b2i_def piece_defs)

lemma sq_upd [simp]:
  "sq (c\<lparr>all_game_moves := l\<rparr>) x y = sq c x y"
  "sq (c\<lparr>whites_turn := t\<rparr>) x y = sq c x y"
  "sq (c\<lparr>white_castling := f\<rparr>) x y = sq c x y"
  "sq (c\<lparr>black_castling := f\<rparr>) x y = sq c x y"
  "sq (c\<lparr>board := b\<rparr>) x y = b (cell x y)"
  by (simp_all add: sq_def)

lemma Append_normal:
  assumes "\<not> (GetCastling c \<and> sq c x1 y1 = (if whites_turn c then W_KING else B_KING) \<and> (x2 = 2 \<or> x2 = 6))"
  shows "AppendToAllGameMoves x1 y1 x2 y2 c =
    c\<lparr>all_game_moves := all_game_moves c @ [(NORMAL, ToString x1 y1 x2 y2 @ [sq c x1 y1, sq c x2 y2])]\<rparr>"
  using assms by (simp add: AppendToAllGameMoves_def own_king_cases)

lemmas push_castling_upd = push_castling_def back_kind_def back_push_def back_str_def GetCastling_def

lemma shift_piece_eq:
  "shift_piece x1 y1 x2 y2 c = c\<lparr>board := (board c)(cell x2 y2 := sq c x1 y1, cell x1 y1 := EMPTY)\<rparr>"
  by (simp add: shift_piece_def put_def sq_def)

lemma score_capture_False [simp]: "score_capture False c = c"
  by (simp add: score_capture_def)

lemma unshift_piece_eq:
  "unshift_piece x1 y1 x2 y2 c =
    c\<lparr>board := (board c)(cell x1 y1 := sq c x2 y2,
         cell x2 y2 := (if back_kind c = CASTLING then EMPTY else chr_at (back_str c) 5))\<rparr>"
  by (simp add: unshift_piece_def put_def sq_def back_kind_def back_str_def)

lemma back_upd [simp]:
  "back_kind (c\<lparr>all_game_moves := l @ [(k, s)]\<rparr>) = k"
  "back_str (c\<lparr>all_game_moves := l @ [(k, s)]\<rparr>) = s"
  by (simp_all add: back_kind_def back_str_def)

lemma back_other [simp]:
  "back_kind (c\<lparr>board := b\<rparr>) = back_kind c"
  "back_kind (c\<lparr>whites_turn := t\<rparr>) = back_kind c"
  "back_kind (c\<lparr>white_castling := f\<rparr>) = back_kind c"
  "back_kind (c\<lparr>black_castling := f\<rparr>) = back_kind c"
  "back_str (c\<lparr>board := b\<rparr>) = back_str c"
  "back_str (c\<lparr>whites_turn := t\<rparr>) = back_str c"
  "back_str (c\<lparr>white_castling := f\<rparr>) = back_str c"
  "back_str (c\<lparr>black_castling := f\<rparr>) = back_str c"
  by (simp_all add: back_kind_def back_str_def)

lemma chr_at_ToString5 [simp]: "chr_at (ToString x1 y1 x2 y2 @ p # cap # rest) 5 = cap"
  by (simp add: chr_at_def ToString_def)

text \<open>Case: a piece that is neither pawn, king nor rook.\<close>

lemma apply_undo_simple:
  assumes "on_board x1 y1" "on_board x2 y2" "x1 \<noteq> x2 \<or> y1 \<noteq> y2"
    and "sq c x1 y1 \<noteq> W_PAWN" "sq c x1 y1 \<noteq> B_PAWN" "sq c x1 y1 \<noteq> W_KING" "sq c x1 y1 \<noteq> B_KING"
        "sq c x1 y1 \<noteq> W_ROOK" "sq c x1 y1 \<noteq> B_ROOK"
  shows "MovePieceBack (MovePiece inp c x1 y1 x2 y2 False False) x1 y1 x2 y2 = Some c"
proof -
  have ne: "cell x1 y1 \<noteq> cell x2 y2" using assms(1-3) by (simp add: on_board_cell)
  have ne': "cell x2 y2 \<noteq> cell x1 y1" using ne by simp
  have a: "MovePiece inp c x1 y1 x2 y2 False False =
    c\<lparr>board := (board c)(cell x2 y2 := sq c x1 y1, cell x1 y1 := EMPTY),
      all_game_moves := all_game_moves c @ [(NORMAL, ToString x1 y1 x2 y2 @ [sq c x1 y1, sq c x2 y2, b2i (GetCastling c)])],
      whites_turn := \<not> whites_turn c\<rparr>"
    using assms(4-)
    by (simp add: MovePiece_def Append_normal switch_piece_def push_castling_upd shift_piece_eq ChangeTurn_def)
  show ?thesis
    unfolding a using assms(4-) ne ne'
    by (simp add: MovePieceBack_def ChangeTurn_def unshift_piece_eq unswitch_piece_def pop_back_def sq_def Let_def)
qed


lemma nth_snoc3: "2 \<le> length l \<Longrightarrow> (l @ [e]) ! (length l - 2) = l ! (length l - 2)"
  by (auto simp add: nth_append)

lemma restore_castling_logged:
  assumes "length (all_game_moves d) \<ge> 3"
  shows "restore_castling d =
    Some (if entry_flag (all_game_moves d ! (length (all_game_moves d) - 3)) then SetCastling True d else d)"
  using assms by (simp add: restore_castling_def entry_flag_def Let_def)

lemma restore_castling_upd [simp]:
  "restore_castling (c\<lparr>board := b\<rparr>) = map_option (\<lambda>d. d\<lparr>board := b\<rparr>) (restore_castling c)"
  by (simp add: restore_castling_def Let_def SetCastling_def)

text \<open>Case: a rook.\<close>

lemma apply_undo_rook:
  assumes "on_board x1 y1" "on_board x2 y2" "x1 \<noteq> x2 \<or> y1 \<noteq> y2"
    and "sq c x1 y1 = W_ROOK \<or> sq c x1 y1 = B_ROOK"
    and "flag_logged c"
  shows "MovePieceBack (MovePiece inp c x1 y1 x2 y2 False False) x1 y1 x2 y2 = Some c"
proof -
  have ne: "cell x1 y1 \<noteq> cell x2 y2" "cell x2 y2 \<noteq> cell x1 y1"
    using assms(1-3) by (auto simp add: on_board_cell)
  have p: "sq c x1 y1 \<noteq> W_PAWN" "sq c x1 y1 \<noteq> B_PAWN" "sq c x1 y1 \<noteq> W_KING" "sq c x1 y1 \<noteq> B_KING"
    "sq c x1 y1 \<noteq> W_QUEEN" "sq c x1 y1 \<noteq> B_QUEEN"
    using assms(4) by (auto simp: piece_defs)
  have len: "length (all_game_moves c) \<ge> 2"
    and fl: "entry_flag (all_game_moves c ! (length (all_game_moves c) - 2)) = GetCastling c"
    using assms(5) by (simp_all add: flag_logged_def Let_def)
  have a: "MovePiece inp c x1 y1 x2 y2 False False =
    (SetCastling False c)\<lparr>board := (board c)(cell x2 y2 := sq c x1 y1, cell x1 y1 := EMPTY),
      all_game_moves := all_game_moves c @ [(NORMAL, ToString x1 y1 x2 y2 @ [sq c x1 y1, sq c x2 y2, 0])],
      whites_turn := \<not> whites_turn c\<rparr>"
    using assms(4) p
    by (cases "whites_turn c")
       (auto simp add: MovePiece_def Append_normal switch_piece_def push_castling_upd shift_piece_eq
         ChangeTurn_def SetCastling_def GetCastling_def b2i_def)
  show ?thesis
    unfolding a using assms(4) p ne len fl
    by (cases "whites_turn c")
       (auto simp add: MovePieceBack_def ChangeTurn_def unshift_piece_eq unswitch_piece_def pop_back_def
         sq_def Let_def SetCastling_def GetCastling_def restore_castling_logged nth_snoc3)
qed


lemmas apply_defs = MovePiece_def Append_normal switch_piece_def push_castling_upd shift_piece_eq
  ChangeTurn_def SetCastling_def b2i_def

lemmas undo_defs = MovePieceBack_def ChangeTurn_def unshift_piece_eq unswitch_piece_def pop_back_def
  sq_def Let_def SetCastling_def GetCastling_def

text \<open>Case: a king that does not castle.\<close>

lemma move_king_plain:
  "\<not> (GetCastling c \<and> (x2 = 2 \<or> x2 = 6)) \<Longrightarrow> move_king x2 c = SetCastling False c"
  by (auto simp add: move_king_def Let_def)

lemma GetCastling_log [simp]: "GetCastling (c\<lparr>all_game_moves := l\<rparr>) = GetCastling c"
  by (simp add: GetCastling_def)

lemma apply_undo_king:
  assumes "on_board x1 y1" "on_board x2 y2" "x1 \<noteq> x2 \<or> y1 \<noteq> y2"
    and "sq c x1 y1 = W_KING \<or> sq c x1 y1 = B_KING"
    and "\<not> (GetCastling c \<and> (x2 = 2 \<or> x2 = 6))"
    and "flag_logged c"
  shows "MovePieceBack (MovePiece inp c x1 y1 x2 y2 False False) x1 y1 x2 y2 = Some c"
proof -
  have ne: "cell x1 y1 \<noteq> cell x2 y2" "cell x2 y2 \<noteq> cell x1 y1"
    using assms(1-3) by (auto simp add: on_board_cell)
  have p: "sq c x1 y1 \<noteq> W_PAWN" "sq c x1 y1 \<noteq> B_PAWN" "sq c x1 y1 \<noteq> W_ROOK" "sq c x1 y1 \<noteq> B_ROOK"
    "sq c x1 y1 \<noteq> W_QUEEN" "sq c x1 y1 \<noteq> B_QUEEN"
    using assms(4) by (auto simp: piece_defs)
  have len: "length (all_game_moves c) \<ge> 2"
    and fl: "entry_flag (all_game_moves c ! (length (all_game_moves c) - 2)) = GetCastling c"
    using assms(6) by (simp_all add: flag_logged_def Let_def)
  have ap: "AppendToAllGameMoves x1 y1 x2 y2 c =
    c\<lparr>all_game_moves := all_game_moves c @ [(NORMAL, ToString x1 y1 x2 y2 @ [sq c x1 y1, sq c x2 y2])]\<rparr>"
    using assms(5) by (intro Append_normal) auto
  have a: "MovePiece inp c x1 y1 x2 y2 False False =
    (SetCastling False c)\<lparr>board := (board c)(cell x2 y2 := sq c x1 y1, cell x1 y1 := EMPTY),
      all_game_moves := all_game_moves c @ [(NORMAL, ToString x1 y1 x2 y2 @ [sq c x1 y1, sq c x2 y2, 0])],
      whites_turn := \<not> whites_turn c\<rparr>"
    unfolding MovePiece_def ap using assms(4,5) p
    by (cases "whites_turn c")
       (simp_all add: switch_piece_def move_king_plain push_castling_upd shift_piece_eq
          ChangeTurn_def SetCastling_def b2i_def)
  show ?thesis
    unfolding a using assms(4) p ne len fl
    by (cases "whites_turn c")
       (auto simp add: undo_defs unmove_king_def restore_castling_logged nth_snoc3)
qed

text \<open>Case: queenside castling.\<close>

lemma cell_line [simp]:
  "cell 0 l \<noteq> cell 2 l" "cell 0 l \<noteq> cell 3 l" "cell 0 l \<noteq> cell 4 l"
  "cell 2 l \<noteq> cell 0 l" "cell 2 l \<noteq> cell 3 l" "cell 2 l \<noteq> cell 4 l"
  "cell 3 l \<noteq> cell 0 l" "cell 3 l \<noteq> cell 2 l" "cell 3 l \<noteq> cell 4 l"
  "cell 4 l \<noteq> cell 0 l" "cell 4 l \<noteq> cell 2 l" "cell 4 l \<noteq> cell 3 l"
  by (simp_all add: cell_def)

lemma upd_triv_white:
  "t = whites_turn c \<Longrightarrow> f = white_castling c \<Longrightarrow> b = board c \<Longrightarrow>
   c\<lparr>whites_turn := t, white_castling := f, board := b\<rparr> = c"
  by simp

lemma upd_triv_black:
  "t = whites_turn c \<Longrightarrow> f = black_castling c \<Longrightarrow> b = board c \<Longrightarrow>
   c\<lparr>whites_turn := t, black_castling := f, board := b\<rparr> = c"
  by simp

lemma apply_undo_castle_queenside:
  assumes "GetCastling c"
    and "line = (BOARD_SIZE - 1) * b2i (whites_turn c)"
    and "sq c 4 line = (if whites_turn c then W_KING else B_KING)"
    and "sq c 3 line = EMPTY" "sq c 2 line = EMPTY"
  shows "MovePieceBack (MovePiece inp c 4 line 2 line False False) 4 line 2 line = Some c"
proof -
  have k: "sq c 4 line = W_KING \<or> sq c 4 line = B_KING" 
    "sq c 4 line \<noteq> W_PAWN" "sq c 4 line \<noteq> B_PAWN" "sq c 4 line \<noteq> W_ROOK" "sq c 4 line \<noteq> B_ROOK"
    "sq c 4 line \<noteq> W_QUEEN" "sq c 4 line \<noteq> B_QUEEN"
    using assms(3) by (auto simp: piece_defs)
  have ap: "AppendToAllGameMoves 4 line 2 line c = c\<lparr>all_game_moves := all_game_moves c @ [(CASTLING, [2])]\<rparr>"
    using assms(1,3) by (simp add: AppendToAllGameMoves_def own_king_cases)
  have mk: "move_king 2 (c\<lparr>all_game_moves := l\<rparr>) =
     (SetCastling False c)\<lparr>all_game_moves := l, board := (board c)(cell 3 line := sq c 0 line, cell 0 line := EMPTY)\<rparr>" for l
    using assms(1,2)
    by (cases "whites_turn c") (simp_all add: move_king_def GetCastling_def SetCastling_def put_def Let_def)
  have a: "MovePiece inp c 4 line 2 line False False =
    (SetCastling False c)\<lparr>board := (board c)(cell 3 line := sq c 0 line, cell 0 line := EMPTY,
         cell 2 line := sq c 4 line, cell 4 line := EMPTY),
      all_game_moves := all_game_moves c @ [(CASTLING, [2])],
      whites_turn := \<not> whites_turn c\<rparr>"
    unfolding MovePiece_def ap using k
    by (cases "whites_turn c")
       (simp_all add: switch_piece_def mk push_castling_def back_kind_def shift_piece_eq ChangeTurn_def
         SetCastling_def sq_def)
  have b: "board c = (board c)(cell 0 line := sq c 0 line, cell 3 line := EMPTY, cell 2 line := EMPTY,
      cell 4 line := sq c 4 line)"
    using assms(4,5) by (auto simp add: fun_eq_iff sq_def)
  show ?thesis
    unfolding a using assms(1,2) k
    apply (cases "whites_turn c")
     apply (simp_all add: undo_defs unmove_king_def put_def back_kind_def)
    using assms(2,4,5) apply (rule_tac upd_triv_white; simp add: fun_eq_iff sq_def)
    using assms(2,4,5) apply (rule_tac upd_triv_black; simp add: fun_eq_iff sq_def)
    done
qed


text \<open>Case: a pawn.\<close>

lemma pawn_not_other:
  assumes "p = W_PAWN \<or> p = B_PAWN"
  shows "p \<noteq> W_KING" "p \<noteq> B_KING" "p \<noteq> W_ROOK" "p \<noteq> B_ROOK" "p \<noteq> W_QUEEN" "p \<noteq> B_QUEEN" "p \<noteq> EMPTY"
  using assms by (auto simp: piece_defs)

lemma upd_triv_turn_board:
  "t = whites_turn c \<Longrightarrow> b = board c \<Longrightarrow> c\<lparr>whites_turn := t, board := b\<rparr> = c"
  by simp

lemma apply_undo_pawn_plain:
  assumes "on_board x1 y1" "on_board x2 y2" "x1 \<noteq> x2 \<or> y1 \<noteq> y2"
    and "sq c x1 y1 = W_PAWN \<or> sq c x1 y1 = B_PAWN"
    and "\<not> promotes c y2"
    and "\<not> (x1 \<noteq> x2 \<and> sq c x2 y2 = EMPTY)"
  shows "MovePieceBack (MovePiece inp c x1 y1 x2 y2 False False) x1 y1 x2 y2 = Some c"
proof -
  have ne: "cell x1 y1 \<noteq> cell x2 y2" "cell x2 y2 \<noteq> cell x1 y1"
    using assms(1-3) by (auto simp add: on_board_cell)
  note p = pawn_not_other[OF assms(4)]
  have ap: "AppendToAllGameMoves x1 y1 x2 y2 c =
    c\<lparr>all_game_moves := all_game_moves c @ [(NORMAL, ToString x1 y1 x2 y2 @ [sq c x1 y1, sq c x2 y2])]\<rparr>"
    using p by (intro Append_normal) auto
  have mp: "move_pawn inp x1 y1 x2 y2 False False (c\<lparr>all_game_moves := l\<rparr>) = c\<lparr>all_game_moves := l\<rparr>" for l
    using assms(5,6) by (auto simp add: move_pawn_def promotes_def)
  have a: "MovePiece inp c x1 y1 x2 y2 False False =
    c\<lparr>board := (board c)(cell x2 y2 := sq c x1 y1, cell x1 y1 := EMPTY),
      all_game_moves := all_game_moves c @
         [(NORMAL, ToString x1 y1 x2 y2 @ [sq c x1 y1, sq c x2 y2, b2i (GetCastling c)])],
      whites_turn := \<not> whites_turn c\<rparr>"
    unfolding MovePiece_def ap using assms(4)
    by (simp add: switch_piece_def mp push_castling_upd shift_piece_eq ChangeTurn_def)
  show ?thesis
    unfolding a using assms(4,6) p ne
    by (auto simp add: undo_defs)
qed

lemma apply_undo_pawn_promotion:
  assumes "on_board x1 y1" "on_board x2 y2" "x1 \<noteq> x2 \<or> y1 \<noteq> y2"
    and "sq c x1 y1 = (if whites_turn c then W_PAWN else B_PAWN)"
    and "promotes c y2"
    and "\<not> mover_random c"
  shows "MovePieceBack (MovePiece inp c x1 y1 x2 y2 False False) x1 y1 x2 y2 = Some c"
proof -
  have ne: "cell x1 y1 \<noteq> cell x2 y2" "cell x2 y2 \<noteq> cell x1 y1"
    using assms(1-3) by (auto simp add: on_board_cell)
  have pw: "sq c x1 y1 = W_PAWN \<or> sq c x1 y1 = B_PAWN" using assms(4) by auto
  note p = pawn_not_other[OF pw]
  let ?Q = "if whites_turn c then W_QUEEN else B_QUEEN"
  have ap: "AppendToAllGameMoves x1 y1 x2 y2 c =
    c\<lparr>all_game_moves := all_game_moves c @ [(NORMAL, ToString x1 y1 x2 y2 @ [sq c x1 y1, sq c x2 y2])]\<rparr>"
    using p by (intro Append_normal) auto
  have mp: "move_pawn inp x1 y1 x2 y2 False False (c\<lparr>all_game_moves := l @ [(k, s)]\<rparr>) =
     c\<lparr>all_game_moves := l @ [(PROMOTION, s @ [?Q])], board := (board c)(cell x1 y1 := ?Q)\<rparr>" for l k s
    using assms(5,6)
    by (cases "whites_turn c")
       (simp_all add: move_pawn_def promotes_def mover_random_def Let_def put_def set_back_kind_def
          back_push_def back_kind_def back_str_def sq_def)
  have a: "MovePiece inp c x1 y1 x2 y2 False False =
    c\<lparr>board := (board c)(cell x2 y2 := ?Q, cell x1 y1 := EMPTY),
      all_game_moves := all_game_moves c @
         [(PROMOTION, ToString x1 y1 x2 y2 @ [sq c x1 y1, sq c x2 y2, ?Q, b2i (GetCastling c)])],
      whites_turn := \<not> whites_turn c\<rparr>"
    unfolding MovePiece_def ap using pw
    by (simp add: switch_piece_def mp push_castling_upd shift_piece_eq ChangeTurn_def)
  show ?thesis
    unfolding a using assms(4) ne
    by (cases "whites_turn c")
       (auto simp add: undo_defs put_def piece_defs fun_upd_idem intro!: upd_triv_turn_board)
qed

lemma apply_undo_en_passant:
  assumes "on_board x1 y1" "on_board x2 y2" "x1 \<noteq> x2" "y1 \<noteq> y2"
    and "sq c x1 y1 = W_PAWN \<or> sq c x1 y1 = B_PAWN"
    and "\<not> promotes c y2"
    and "sq c x2 y2 = EMPTY"
    and "sq c x2 y1 = (if whites_turn c then B_PAWN else W_PAWN)"
  shows "MovePieceBack (MovePiece inp c x1 y1 x2 y2 False False) x1 y1 x2 y2 = Some c"
proof -
  have ob: "on_board x2 y1" using assms(1,2) by (simp add: on_board_def)
  have ne: "cell x1 y1 \<noteq> cell x2 y2" "cell x2 y2 \<noteq> cell x1 y1"
     "cell x2 y1 \<noteq> cell x1 y1" "cell x1 y1 \<noteq> cell x2 y1"
     "cell x2 y1 \<noteq> cell x2 y2" "cell x2 y2 \<noteq> cell x2 y1"
    using assms(1-4) ob by (auto simp add: on_board_cell)
  note p = pawn_not_other[OF assms(5)]
  have ap: "AppendToAllGameMoves x1 y1 x2 y2 c =
    c\<lparr>all_game_moves := all_game_moves c @ [(NORMAL, ToString x1 y1 x2 y2 @ [sq c x1 y1, sq c x2 y2])]\<rparr>"
    using p by (intro Append_normal) auto
  have mp: "move_pawn inp x1 y1 x2 y2 False False (c\<lparr>all_game_moves := l @ [(k, s)]\<rparr>) =
     c\<lparr>all_game_moves := l @ [(EN_PASSANT, s)], board := (board c)(cell x2 y1 := EMPTY)\<rparr>" for l k s
    using assms(3,6,7)
    by (simp add: move_pawn_def promotes_def Let_def put_def set_back_kind_def back_str_def)
  have a: "MovePiece inp c x1 y1 x2 y2 False False =
    c\<lparr>board := (board c)(cell x2 y1 := EMPTY, cell x2 y2 := sq c x1 y1, cell x1 y1 := EMPTY),
      all_game_moves := all_game_moves c @
         [(EN_PASSANT, ToString x1 y1 x2 y2 @ [sq c x1 y1, EMPTY, b2i (GetCastling c)])],
      whites_turn := \<not> whites_turn c\<rparr>"
    unfolding MovePiece_def ap using assms(5,7) ne
    by (simp add: switch_piece_def mp push_castling_upd shift_piece_eq ChangeTurn_def sq_def)
  have b: "(board c)(cell x2 y1 := EMPTY, cell x2 y2 := EMPTY, cell x1 y1 := sq c x1 y1,
             cell x2 y1 := (if whites_turn c then B_PAWN else W_PAWN)) = board c"
    using assms(7,8) by (auto simp add: fun_eq_iff sq_def)
  show ?thesis
    unfolding a using assms(3,5,7) p ne b
    by (auto simp add: undo_defs put_def fun_upd_twist)
qed



lemma apply_undo:
  assumes "undo_ok c x1 y1 x2 y2"
  shows "MovePieceBack (MovePiece inp c x1 y1 x2 y2 False False) x1 y1 x2 y2 = Some c"
proof -
  from assms have ob: "on_board x1 y1" "on_board x2 y2" "x1 \<noteq> x2 \<or> y1 \<noteq> y2"
    by (simp_all add: undo_ok_def)
  consider (pawn) "sq c x1 y1 = W_PAWN \<or> sq c x1 y1 = B_PAWN"
    | (king) "sq c x1 y1 = W_KING \<or> sq c x1 y1 = B_KING"
    | (rook) "sq c x1 y1 = W_ROOK \<or> sq c x1 y1 = B_ROOK"
    | (other) "sq c x1 y1 \<noteq> W_PAWN" "sq c x1 y1 \<noteq> B_PAWN" "sq c x1 y1 \<noteq> W_KING"
        "sq c x1 y1 \<noteq> B_KING" "sq c x1 y1 \<noteq> W_ROOK" "sq c x1 y1 \<noteq> B_ROOK"
    by blast
  then show ?thesis
  proof cases
    case pawn
    with assms have h: "if promotes c y2 then sq c x1 y1 = (if whites_turn c then W_PAWN else B_PAWN) \<and> \<not> mover_random c
         else if x1 \<noteq> x2 \<and> sq c x2 y2 = EMPTY
         then y1 \<noteq> y2 \<and> sq c x2 y1 = (if whites_turn c then B_PAWN else W_PAWN)
         else True"
      by (simp add: undo_ok_def Let_def)
    show ?thesis
    proof (cases "promotes c y2")
      case True
      with h ob show ?thesis by (intro apply_undo_pawn_promotion) simp_all
    next
      case np: False
      show ?thesis
      proof (cases "x1 \<noteq> x2 \<and> sq c x2 y2 = EMPTY")
        case True
        with h np ob pawn show ?thesis by (intro apply_undo_en_passant) simp_all
      next
        case False
        with np ob pawn show ?thesis by (intro apply_undo_pawn_plain) simp_all
      qed
    qed
  next
    case king
    then have nk: "sq c x1 y1 \<noteq> W_PAWN" "sq c x1 y1 \<noteq> B_PAWN" by (auto simp: piece_defs)
    with king assms have h1: "GetCastling c \<and> (x2 = 2 \<or> x2 = 6) \<Longrightarrow>
          x2 = 2 \<and> x1 = 4 \<and> y1 = (BOARD_SIZE - 1) * b2i (whites_turn c) \<and> y2 = y1
              \<and> sq c 4 y1 = (if whites_turn c then W_KING else B_KING)
              \<and> sq c 3 y1 = EMPTY \<and> sq c 2 y1 = EMPTY"
      and h2: "\<not> (GetCastling c \<and> (x2 = 2 \<or> x2 = 6)) \<Longrightarrow> flag_logged c"
      by (auto simp add: undo_ok_def Let_def split: if_splits)
    show ?thesis
    proof (cases "GetCastling c \<and> (x2 = 2 \<or> x2 = 6)")
      case True
      then have gc: "GetCastling c" by simp
      from h1[OF True] have e: "x2 = 2" "x1 = 4" "y2 = y1"
        and l: "y1 = (BOARD_SIZE - 1) * b2i (whites_turn c)"
        and k: "sq c 4 y1 = (if whites_turn c then W_KING else B_KING)"
          "sq c 3 y1 = EMPTY" "sq c 2 y1 = EMPTY"
        by blast+
      have "MovePieceBack (MovePiece inp c 4 y1 2 y1 False False) 4 y1 2 y1 = Some c"
        by (rule apply_undo_castle_queenside[OF gc l k])
      then show ?thesis by (simp add: e)
    next
      case False
      with h2 ob king show ?thesis by (intro apply_undo_king) simp_all
    qed
  next
    case rook
    then have nk: "sq c x1 y1 \<noteq> W_PAWN" "sq c x1 y1 \<noteq> B_PAWN" "sq c x1 y1 \<noteq> W_KING" "sq c x1 y1 \<noteq> B_KING"
      by (auto simp: piece_defs)
    with rook assms have "flag_logged c" by (simp add: undo_ok_def Let_def)
    with ob rook show ?thesis by (intro apply_undo_rook) simp_all
  next
    case other
    with ob show ?thesis by (intro apply_undo_simple) simp_all
  qed
qed




lemma turn_stage [simp]:
  "whites_turn (put x y v c) = whites_turn c"
  "whites_turn (SetCastling f c) = whites_turn c"
  "whites_turn (set_back_kind k c) = whites_turn c"
  "whites_turn (back_push ch c) = whites_turn c"
  "whites_turn (IncreaseScore n c) = whites_turn c"
  "whites_turn (AppendToAllGameMoves x1 y1 x2 y2 c) = whites_turn c"
  by (simp_all add: put_def SetCastling_def set_back_kind_def back_push_def IncreaseScore_def
      AppendToAllGameMoves_def)

lemma turn_stage2 [simp]:
  "whites_turn (ManuallyPromotePawn k x y c) = whites_turn c"
  "whites_turn (move_king x2 c) = whites_turn c"
  "whites_turn (push_castling c) = whites_turn c"
  "whites_turn (shift_piece x1 y1 x2 y2 c) = whites_turn c"
  "whites_turn (score_capture u c) = whites_turn c"
  by (simp_all add: ManuallyPromotePawn_def move_king_def push_castling_def shift_piece_def
      score_capture_def Let_def split: Key.split)

lemma turn_move_pawn [simp]: "whites_turn (move_pawn inp x1 y1 x2 y2 m u c) = whites_turn c"
  by (simp add: move_pawn_def Let_def)

lemma turn_switch [simp]: "whites_turn (switch_piece inp x1 y1 x2 y2 m u c) = whites_turn c"
  by (simp add: switch_piece_def Let_def)

lemma MovePiece_turn: "whites_turn (MovePiece inp c x1 y1 x2 y2 m u) = (\<not> whites_turn c)"
  by (simp add: MovePiece_def ChangeTurn_def)

lemma IsCheck_move_ok:
  assumes "move_ok inp c (chr_at (ChangeToRealCoordinates m) 0) (chr_at (ChangeToRealCoordinates m) 1)
                          (chr_at (ChangeToRealCoordinates m) 2) (chr_at (ChangeToRealCoordinates m) 3) = Some b"
  shows "IsCheck_move inp c m = Some (b, c)"
  using assms
  by (simp add: move_ok_def IsCheck_move_def Let_def MovePiece_turn apply_undo split: if_splits)

lemma filter_moves_legal_on:
  "legal_on inp c ms = Some r \<Longrightarrow> filter_moves inp c ms = Some (r, c)"
proof (induction ms arbitrary: r)
  case Nil
  then show ?case by simp
next
  case (Cons m ms)
  let ?mo = "move_ok inp c (chr_at (ChangeToRealCoordinates m) 0) (chr_at (ChangeToRealCoordinates m) 1)
                          (chr_at (ChangeToRealCoordinates m) 2) (chr_at (ChangeToRealCoordinates m) 3)"
  from Cons.prems obtain b r' where mo: "?mo = Some b" and l: "legal_on inp c ms = Some r'"
    and r: "r = (if b then r' else m # r')"
    by (cases ?mo; cases "legal_on inp c ms") auto
  from Cons.IH[OF l] IsCheck_move_ok[OF mo] r show ?case by simp
qed

lemma AllMoves_legal_on:
  assumes "collect_moves c squares [] = Some ms" and "legal_on inp c ms = Some r"
  shows "AllMoves inp c = Some (r, c)"
  using assms by (simp add: AllMoves_def filter_moves_legal_on)


section \<open>Out-of-range coordinates (C4)\<close>

text \<open>
  C4.  The claim: a coordinate outside \<open>0 .. 7\<close> passed to the piece lookup makes
  the core log and terminate.  The code: \<open>CheckCoordinates\<close> would stop on the
  coordinate 8, but \<open>GetPiece\<close> does not call it; on the new game \<open>GetPiece(8, 0)\<close>
  returns the black pawn of the square \<open>(0, 1)\<close>, the byte that follows row 0.
\<close>

theorem C4_lookup_out_of_range_returns:
  "CheckCoordinates 8 0 = Some 8 \<and> GetPiece new_game 8 0 = B_PAWN \<and> GetPiece c 8 0 = sq c 0 1"
  by (simp add: CheckCoordinates_def WithinBounds_def BOARD_SIZE_def GetPiece_def sq_def cell_def
      new_game_def mem_of_def STARTING_BOARD_def B_PAWN_def)

section \<open>Castling in the king's move list (C10)\<close>

lemma king_steps_near: "m \<in> set (king_steps c x y) \<Longrightarrow> \<exists>i j. m = ToString x y i j \<and> \<bar>i - x\<bar> \<le> 1"
  unfolding king_steps_def near_def by fastforce

text \<open>
  C10.  When the castling flag of the side to move is set, its king is not in
  check, both rooks are on their home squares and all squares between king and
  rooks are empty, the move list of the king on its home square holds the
  queenside castling move and does not hold the kingside castling move.
\<close>

theorem C10_queenside_only:
  assumes "GetCastling c" and "IsCheck c (whites_turn c) = Some False"
    and "line = (BOARD_SIZE - 1) * b2i (whites_turn c)"
    and "sq c 0 line = B_ROOK + 7 * b2i (whites_turn c)"
    and "sq c 7 line = B_ROOK + 7 * b2i (whites_turn c)"
    and "sq c 1 line = EMPTY" "sq c 2 line = EMPTY" "sq c 3 line = EMPTY"
    and "sq c 5 line = EMPTY" "sq c 6 line = EMPTY"
  shows "offers (KingMoves c 4 line) (ToString 4 line 2 line)
       \<and> \<not> offers (KingMoves c 4 line) (ToString 4 line 6 line)"
proof -
  have k: "KingMoves c 4 line = Some (ToString 4 line 2 line # king_steps c 4 line)"
    using assms by (simp add: KingMoves_def Let_def)
  have "ToString 4 line 6 line \<notin> set (king_steps c 4 line)"
    using king_steps_near[of "ToString 4 line 6 line" c 4 line] by (auto simp: ToString_eq)
  with k show ?thesis by (simp add: offers_def ToString_eq)
qed

lemma both_wings_facts:
  "GetCastling game_both_wings" "IsCheck game_both_wings (whites_turn game_both_wings) = Some False"
  "(7::int) = (BOARD_SIZE - 1) * b2i (whites_turn game_both_wings)"
  "sq game_both_wings 0 7 = B_ROOK + 7 * b2i (whites_turn game_both_wings)"
  "sq game_both_wings 7 7 = B_ROOK + 7 * b2i (whites_turn game_both_wings)"
  "sq game_both_wings 1 7 = EMPTY" "sq game_both_wings 2 7 = EMPTY" "sq game_both_wings 3 7 = EMPTY"
  "sq game_both_wings 5 7 = EMPTY" "sq game_both_wings 6 7 = EMPTY"
  unfolding game_both_wings_def by code_simp+

theorem C10_queenside_only_witness:
  "GetCastling game_both_wings \<and> IsCheck game_both_wings (whites_turn game_both_wings) = Some False
   \<and> sq game_both_wings 0 7 = W_ROOK \<and> sq game_both_wings 7 7 = W_ROOK
   \<and> offers (KingMoves game_both_wings 4 7) (ToString 4 7 2 7)
   \<and> \<not> offers (KingMoves game_both_wings 4 7) (ToString 4 7 6 7)"
proof -
  have r: "sq game_both_wings 0 7 = W_ROOK" "sq game_both_wings 7 7 = W_ROOK"
    unfolding game_both_wings_def by code_simp+
  show ?thesis
    using C10_queenside_only[OF both_wings_facts] both_wings_facts(1,2) r by simp
qed

section \<open>En passant in the pawn's move list (C8)\<close>

lemma not_capture_EMPTY: "\<not> IsValid_capture c EMPTY"
  by (simp add: IsValid_capture_def EMPTY_def)

lemma pawn_diag_empty:
  assumes "x' \<noteq> x" and "sq c x' (y + (if whites_turn c then -1 else 1)) = EMPTY"
  shows "ToString x y x' (y + (if whites_turn c then -1 else 1)) \<in> set (PawnMoves c x y)
         \<longleftrightarrow> GetEnPassant c x y \<noteq> -1 \<and> GetEnPassant c x y = x'"
proof -
  let ?inc = "if whites_turn c then -1 else 1 :: int"
  have r: "\<not> (IsValid_capture c (sq c (x + 1) (y + ?inc)) \<and> x' = x + 1)"
    using assms not_capture_EMPTY by auto
  have l: "\<not> (IsValid_capture c (sq c (x - 1) (y + ?inc)) \<and> x' = x - 1)"
    using assms not_capture_EMPTY by auto
  show ?thesis
    using assms(1) r l unfolding PawnMoves_def Let_def
    by (auto simp: ToString_eq)
qed

lemma GetEnPassant_iff:
  assumes "0 \<le> x'"
  shows "GetEnPassant c x y \<noteq> -1 \<and> GetEnPassant c x y = x' \<longleftrightarrow>
    (all_game_moves c \<noteq> [] \<and> back_kind c = NORMAL \<and>
     chr_at (ChangeToRealCoordinates (back_str c)) 4 = (if whites_turn c then B_PAWN else W_PAWN) \<and>
     chr_at (ChangeToRealCoordinates (back_str c)) 3 - chr_at (ChangeToRealCoordinates (back_str c)) 1
        = (if whites_turn c then 2 else -2) \<and>
     \<bar>chr_at (ChangeToRealCoordinates (back_str c)) 0 - x\<bar> = 1 \<and>
     y = (if whites_turn c then 3 else 4) \<and>
     x' = chr_at (ChangeToRealCoordinates (back_str c)) 0)"
  using assms unfolding GetEnPassant_def Let_def b2i_def piece_defs
  by (cases "whites_turn c") auto

text \<open>
  C8.  For a pawn of the side to move on \<open>(x, y)\<close> and an empty square
  \<open>(x', y + inc)\<close> on the board diagonally in front of it, the capture onto that
  square (an en-passant capture, the target being empty) is in the pawn's move
  list exactly when the log is not empty, its last entry is a normal move of an
  enemy pawn by two ranks in its direction of play, from the file \<open>x'\<close>, that file
  is next to \<open>x\<close>, and the pawn stands on the rank where such an advance lands
  (row 3 for White, row 4 for Black).  One ply later the last entry is another
  move, so the capture is offered only if that move qualifies again.
\<close>

theorem C8_en_passant_offered_iff:
  assumes "WithinBounds x'" and "x' \<noteq> x"
    and "sq c x' (y + (if whites_turn c then -1 else 1)) = EMPTY"
  shows "ToString x y x' (y + (if whites_turn c then -1 else 1)) \<in> set (PawnMoves c x y) \<longleftrightarrow>
    (all_game_moves c \<noteq> [] \<and> back_kind c = NORMAL \<and>
     chr_at (ChangeToRealCoordinates (back_str c)) 4 = (if whites_turn c then B_PAWN else W_PAWN) \<and>
     chr_at (ChangeToRealCoordinates (back_str c)) 3 - chr_at (ChangeToRealCoordinates (back_str c)) 1
        = (if whites_turn c then 2 else -2) \<and>
     \<bar>chr_at (ChangeToRealCoordinates (back_str c)) 0 - x\<bar> = 1 \<and>
     y = (if whites_turn c then 3 else 4) \<and>
     x' = chr_at (ChangeToRealCoordinates (back_str c)) 0)"
proof -
  from assms(1) have "0 \<le> x'" by (simp add: WithinBounds_def)
  from pawn_diag_empty[OF assms(2,3)] GetEnPassant_iff[OF this] show ?thesis by simp
qed

lemma en_passant_facts:
  "WithinBounds 3" "(3::int) \<noteq> 4"
  "sq game_en_passant 3 (3 + (if whites_turn game_en_passant then -1 else 1)) = EMPTY"
  unfolding game_en_passant_def by code_simp+

lemma en_passant_log:
  "all_game_moves game_en_passant \<noteq> [] \<and> back_kind game_en_passant = NORMAL \<and>
     chr_at (ChangeToRealCoordinates (back_str game_en_passant)) 4 = (if whites_turn game_en_passant then B_PAWN else W_PAWN) \<and>
     chr_at (ChangeToRealCoordinates (back_str game_en_passant)) 3 - chr_at (ChangeToRealCoordinates (back_str game_en_passant)) 1
        = (if whites_turn game_en_passant then 2 else -2) \<and>
     \<bar>chr_at (ChangeToRealCoordinates (back_str game_en_passant)) 0 - 4\<bar> = 1 \<and>
     (3::int) = (if whites_turn game_en_passant then 3 else 4) \<and>
     (3::int) = chr_at (ChangeToRealCoordinates (back_str game_en_passant)) 0"
  unfolding game_en_passant_def by code_simp

theorem C8_en_passant_offered_iff_witness:
  "WithinBounds 3 \<and> sq game_en_passant 3 (3 + (if whites_turn game_en_passant then -1 else 1)) = EMPTY
   \<and> ToString 4 3 3 (3 + (if whites_turn game_en_passant then -1 else 1)) \<in> set (PawnMoves game_en_passant 4 3)"
  using C8_en_passant_offered_iff[OF en_passant_facts] en_passant_facts en_passant_log by simp

section \<open>Array accesses of the check detector (C9)\<close>

text \<open>
  C9.  The claim: with a king of the queried colour on the board every access
  of \<open>IsCheck(turn)\<close> uses indices within \<open>0 .. 7\<close>.  The code reads \<open>board[j][i]\<close>
  before it tests \<open>i\<close> and \<open>j\<close>: on the new game, for White, whose king stands on
  row 7, the probe of the adjacent squares reads row 8.  With the accesses
  checked the detector does not get through; the code as compiled answers that
  the king is not in check.
\<close>

theorem C9_new_game_access_out_of_bounds:
  "find_king new_game W_KING = Some (4, 7) \<and> IsCheck_acc new_game True = None
   \<and> IsCheck new_game True = Some False"
  by code_simp


section \<open>Castling on either wing (C7)\<close>

text \<open>
  C7.  The claim: kingside and queenside castling are offered independently of
  each other.  The code tests the kingside conditions in the \<open>else\<close> branch of the
  queenside test.  In the game \<open>game_both_wings\<close> every condition of kingside
  castling holds (flag set, king not in check, rook on h1, f1 and g1 empty), and
  the king's move list does not hold the kingside castling move; it appears as
  soon as a knight is put on b1, a square of the other wing.
\<close>

theorem C7_kingside_depends_on_queenside:
  "GetCastling game_both_wings \<and> IsCheck game_both_wings True = Some False
   \<and> sq game_both_wings 4 7 = W_KING \<and> sq game_both_wings 7 7 = W_ROOK
   \<and> sq game_both_wings 5 7 = EMPTY \<and> sq game_both_wings 6 7 = EMPTY
   \<and> \<not> offers (KingMoves game_both_wings 4 7) (ToString 4 7 6 7)
   \<and> offers (KingMoves (put 1 7 W_KNIGHT game_both_wings) 4 7) (ToString 4 7 6 7)"
  unfolding game_both_wings_def by code_simp

end
